theory Spec2Isabelle
  imports Main "HOL-Library.Char_ord" "HOL-Library.List_Lexorder" "HOL-Library.AList"
begin

section \<open>Text and paths\<close>

text \<open>
  A Python \<open>str\<close> is modelled as a \<open>string\<close> in which every \<open>char\<close> stands for one
  character of the text (the code points below 256), so \<open>length\<close> is Python's \<open>len\<close>.
  \<open>isspace\<close> lists the characters of that range that \<open>str.strip()\<close> removes.
\<close>

definition isspace :: "char \<Rightarrow> bool" where
  "isspace c =
     (let n = (of_char c :: nat)
      in (9 \<le> n \<and> n \<le> 13) \<or> (28 \<le> n \<and> n \<le> 32) \<or> n = 133 \<or> n = 160)"

definition strip :: "string \<Rightarrow> string" where
  "strip s = rev (dropWhile isspace (rev (dropWhile isspace s)))"

fun join :: "string \<Rightarrow> string list \<Rightarrow> string" where
  "join sep [] = []"
| "join sep [x] = x"
| "join sep (x # y # ys) = x @ sep @ join sep (y # ys)"

definition digit_char :: "nat \<Rightarrow> char" where
  "digit_char d = ''0123456789'' ! d"

fun str_nat :: "nat \<Rightarrow> string" where
  "str_nat n = (if n < 10 then [digit_char n] else str_nat (n div 10) @ [digit_char (n mod 10)])"

definition str_int :: "int \<Rightarrow> string" where
  "str_int i = (if i < 0 then ''-'' @ str_nat (nat (- i)) else str_nat (nat i))"

text \<open>
  A \<open>pathlib\<close> path on a POSIX system, as the list of components that \<open>str(p).split('/')\<close>
  gives (the list \<open>PurePath\<close> compares by): \<open>/a/b\<close> is \<open>['''', ''a'', ''b'']\<close> and the root is
  \<open>['''', '''']\<close>.
\<close>

type_synonym path = "string list"

definition path_str :: "path \<Rightarrow> string" where
  "path_str p = join ''/'' p"

definition path_div :: "path \<Rightarrow> string \<Rightarrow> path" where
  "path_div p n = (if p = ['''', ''''] then ['''', n] else p @ [n])"

definition path_name :: "path \<Rightarrow> string" where
  "path_name p = (if p = [] then [] else last p)"

text \<open>The glob pattern \<open>*.patch\<close>: any name that ends in \<open>.patch\<close>.\<close>

definition is_patch :: "string \<Rightarrow> bool" where
  "is_patch n = (6 \<le> length n \<and> drop (length n - 6) n = ''.patch'')"

section \<open>The world the two scripts run in\<close>

text \<open>
  \<open>PATCH_REPO\<close> is the directory above the script's own; the other global paths are
  computed from it as in the source.
\<close>

record config =
  PATCH_REPO :: path

definition PATCHES_DIR :: "config \<Rightarrow> path" where
  "PATCHES_DIR cfg = path_div (PATCH_REPO cfg) ''patches''"

definition BASE_COMMIT_FILE :: "config \<Rightarrow> path" where
  "BASE_COMMIT_FILE cfg = path_div (PATCH_REPO cfg) ''BASE_COMMIT.txt''"

definition PREVIEW_DIFF :: "config \<Rightarrow> path" where
  "PREVIEW_DIFF cfg = path_div (PATCH_REPO cfg) ''preview.diff''"

text \<open>
  What lies outside the scripts: \<open>git cwd args\<close> is the exit code and the standard output
  of \<open>git args\<close> run in \<open>cwd\<close>; \<open>format_patch_files\<close> are the files (name, content) that
  \<open>git format-patch -o PATCHES_DIR\<close> writes; \<open>resolve\<close> is \<open>Path.resolve\<close> and \<open>cwd\<close> is
  \<open>Path.cwd()\<close>.
\<close>

record env =
  git :: "string \<Rightarrow> string list \<Rightarrow> int \<times> string"
  format_patch_files :: "(string \<times> string) list"
  resolve :: "string \<Rightarrow> string"
  cwd :: string

datatype event =
    Spawn string "string list"
  | Out string
  | Err string

text \<open>
  The files the scripts read and write, and what the process has done so far:
  \<open>base_commit_txt\<close> is the text of \<open>BASE_COMMIT.txt\<close> (\<open>None\<close>: no such file),
  \<open>patches\<close> the listing of the \<open>patches/\<close> directory, in the order the system lists it,
  as regular files with their text (\<open>None\<close>: no such directory), \<open>preview_diff\<close> the text of
  \<open>preview.diff\<close>, \<open>git_dirs\<close> the directories that hold a \<open>.git\<close> entry, and \<open>trace\<close>
  the subprocesses spawned (working directory and command line), the lines printed and
  the messages written to standard error, oldest first.
\<close>

record world =
  base_commit_txt :: "string option"
  patches :: "(string \<times> string) list option"
  preview_diff :: "string option"
  git_dirs :: "string list"
  trace :: "event list"

text \<open>
  A run either returns a value, or ends the process with an exit status (\<open>sys.exit\<close>),
  or dies of an exception nobody catches.
\<close>

datatype 'a outcome =
    Return 'a world
  | Exit nat world
  | Uncaught string world

type_synonym 'a prog = "world \<Rightarrow> 'a outcome"

definition ret :: "'a \<Rightarrow> 'a prog" where
  "ret x w = Return x w"

definition bind_prog :: "'a prog \<Rightarrow> ('a \<Rightarrow> 'b prog) \<Rightarrow> 'b prog" where
  "bind_prog m f w =
     (case m w of
        Return x w' \<Rightarrow> f x w'
      | Exit n w' \<Rightarrow> Exit n w'
      | Uncaught e w' \<Rightarrow> Uncaught e w')"

definition seq_prog :: "'a prog \<Rightarrow> 'b prog \<Rightarrow> 'b prog" where
  "seq_prog m n = bind_prog m (\<lambda>_. n)"

fun final :: "'a outcome \<Rightarrow> world" where
  "final (Return x w) = w"
| "final (Exit n w) = w"
| "final (Uncaught e w) = w"

fun spawns :: "event list \<Rightarrow> (string \<times> string list) list" where
  "spawns [] = []"
| "spawns (Spawn d c # es) = (d, c) # spawns es"
| "spawns (Out s # es) = spawns es"
| "spawns (Err s # es) = spawns es"

definition emit :: "event \<Rightarrow> world \<Rightarrow> world" where
  "emit e w = w\<lparr>trace := trace w @ [e]\<rparr>"

definition print :: "string \<Rightarrow> unit prog" where
  "print s w = Return () (emit (Out s) w)"

text \<open>\<open>sys.exit\<close> with a string writes it to standard error and exits with status 1.\<close>

definition sys_exit_msg :: "string \<Rightarrow> 'a prog" where
  "sys_exit_msg m w = Exit 1 (emit (Err m) w)"

definition sys_exit :: "nat \<Rightarrow> 'a prog" where
  "sys_exit n w = Exit n w"

definition raise :: "string \<Rightarrow> 'a prog" where
  "raise e w = Uncaught e w"

text \<open>
  \<open>subprocess.run\<close> of a git command line: the process is spawned in \<open>d\<close>, and
  \<open>format-patch\<close> leaves its files in the output directory (which it creates when absent).
  The result is the exit code and what the process wrote to its standard output.
\<close>

definition git_effect :: "env \<Rightarrow> string list \<Rightarrow> world \<Rightarrow> world" where
  "git_effect e args w =
     (case args of
        [] \<Rightarrow> w
      | a # _ \<Rightarrow>
          if a = ''format-patch''
          then w\<lparr>patches :=
                  Some (foldl (\<lambda>d (n, c). AList.update n c d)
                          (case patches w of None \<Rightarrow> [] | Some d \<Rightarrow> d)
                          (format_patch_files e))\<rparr>
          else w)"

definition subprocess_run :: "env \<Rightarrow> string list \<Rightarrow> string \<Rightarrow> (int \<times> string) prog" where
  "subprocess_run e args d w =
     Return (git e d args) (git_effect e args (emit (Spawn d (''git'' # args)) w))"

definition print_header :: "nat \<Rightarrow> nat \<Rightarrow> string \<Rightarrow> unit prog" where
  "print_header step total_steps message =
     print (''['' @ str_nat step @ ''/'' @ str_nat total_steps @ ''] '' @ message)"

text \<open>
  \<open>PATCHES_DIR.glob("*.patch")\<close>: the matching entries of the patches directory as paths,
  in the order the directory lists them; nothing when the directory is absent.
\<close>

definition glob_patches :: "config \<Rightarrow> path list prog" where
  "glob_patches cfg w =
     Return
       (case patches w of
          None \<Rightarrow> []
        | Some d \<Rightarrow> map (path_div (PATCHES_DIR cfg)) (filter is_patch (map fst d)))
       w"

section \<open>The importer: \<open>apply_patches.py\<close>\<close>

text \<open>
  The two scripts each define \<open>run_git\<close>, \<open>validate_eden_repo\<close> and \<open>main\<close>; the
  importer's carry the prefix \<open>apply_\<close> here and the exporter's \<open>export_\<close>.
\<close>

definition apply_script_name :: string where
  "apply_script_name = ''apply_patches.py''"

text \<open>
  With \<open>capture\<close> the result of \<open>run_git\<close> carries the standard output, otherwise its
  \<open>stdout\<close> is \<open>None\<close>.
\<close>

definition apply_run_git ::
  "env \<Rightarrow> string list \<Rightarrow> string \<Rightarrow> bool \<Rightarrow> bool \<Rightarrow> (int \<times> string option) prog" where
  "apply_run_git e args d capture check =
     seq_prog (print (''  > '' @ join '' '' (''git'' # args)))
       (bind_prog (subprocess_run e args d) (\<lambda>(returncode, out).
          if check \<and> returncode \<noteq> 0
          then seq_prog (print (''Command failed with exit code '' @ str_int returncode))
                 (sys_exit 1)
          else ret (returncode, if capture then Some out else None)))"

definition load_base_commit :: "config \<Rightarrow> string prog" where
  "load_base_commit cfg w =
     (case base_commit_txt w of
        None \<Rightarrow> sys_exit_msg (''Error: '' @ path_str (BASE_COMMIT_FILE cfg) @ '' not found!'') w
      | Some text \<Rightarrow>
          (let commit = strip text
           in if commit = [] \<or> length commit < 7
              then sys_exit_msg ''Error: BASE_COMMIT.txt is empty or invalid!'' w
              else ret commit w))"

definition apply_validate_eden_repo :: "env \<Rightarrow> string \<Rightarrow> string \<Rightarrow> unit prog" where
  "apply_validate_eden_repo e eden_repo expected_commit w =
     (if eden_repo \<notin> set (git_dirs w)
      then sys_exit_msg
             (''Error: '' @ [CHR 39] @ eden_repo @ [CHR 39] @ '' is not a git repository!''
              @ [CHR 10, CHR 10] @ ''Usage:'' @ [CHR 10]
              @ ''  python '' @ apply_script_name @ '' <path-to-eden-repo>'') w
      else bind_prog
             (apply_run_git e [''cat-file'', ''-t'', expected_commit] eden_repo True False)
             (\<lambda>(returncode, out).
                if returncode \<noteq> 0
                then sys_exit_msg
                       (''Error: Commit '' @ take 12 expected_commit
                        @ '' not found in repository.'' @ [CHR 10]
                        @ ''  Try running '' @ [CHR 39] @ ''git fetch'' @ [CHR 39]
                        @ '' in your eden repo to update.'')
                else ret ()) w)"

definition apply_main :: "config \<Rightarrow> env \<Rightarrow> string list \<Rightarrow> unit prog" where
  "apply_main cfg e argv =
     (if length argv < 2
      then sys_exit_msg
             (''Usage: python '' @ apply_script_name @ '' <path-to-eden-repo>''
              @ [CHR 10, CHR 10] @ ''Example:'' @ [CHR 10]
              @ ''  python '' @ apply_script_name @ '' ../eden'' @ [CHR 10]
              @ ''  python '' @ apply_script_name @ '' C:'' @ [CHR 92] @ ''path''
              @ [CHR 92] @ ''to'' @ [CHR 92] @ ''eden'')
      else
        (let eden_repo = resolve e (argv ! 1)
         in seq_prog (print (''Eden repo:   '' @ eden_repo))
           (seq_prog (print (''Patch repo:  '' @ path_str (PATCH_REPO cfg)))
           (seq_prog (print [])
           (seq_prog (print_header 1 4 ''Loading BASE_COMMIT.txt...'')
           (bind_prog (load_base_commit cfg) (\<lambda>expected_commit.
            seq_prog (print (''  Expected commit: '' @ take 12 expected_commit @ ''...''))
           (seq_prog (apply_validate_eden_repo e eden_repo expected_commit)
           (seq_prog (print_header 2 4 ''Checking out base commit...'')
           (seq_prog (apply_run_git e [''checkout'', ''-f'', expected_commit] eden_repo False True)
           (seq_prog (apply_run_git e [''clean'', ''-fdx''] eden_repo False True)
           (seq_prog (print_header 3 4 ''Creating patched-release branch...'')
           (seq_prog (subprocess_run e [''branch'', ''-D'', ''patched-release''] eden_repo)
           (seq_prog (apply_run_git e [''checkout'', ''-b'', ''patched-release''] eden_repo False True)
           (seq_prog (print_header 4 4 ''Applying patches...'')
           (bind_prog (glob_patches cfg) (\<lambda>globbed.
            let patch_files = sort globbed
            in if patch_files = []
               then seq_prog (print ''  No patches found in patches/ directory.'')
                      (print ''Done! (No patches to apply)'')
               else
                 seq_prog (print (''  Found '' @ str_nat (length patch_files) @ '' patch(es)''))
                (bind_prog
                   (subprocess_run e ([''am'', ''--3way''] @ map path_str patch_files) eden_repo)
                   (\<lambda>(returncode, out).
                      if returncode \<noteq> 0
                      then seq_prog (print ([CHR 10] @ replicate 60 CHR ''=''))
                          (seq_prog (print ''ERROR: Patch application failed!'')
                          (seq_prog (print (replicate 60 CHR ''=''))
                          (seq_prog (print (''To abort and reset: cd '' @ eden_repo
                                            @ '' && git am --abort''))
                          (seq_prog (print ''To resolve manually: fix conflicts, git add, git am --continue'')
                          (sys_exit 1)))))
                      else seq_prog (print ([CHR 10] @ replicate 60 CHR ''=''))
                          (seq_prog (print ''SUCCESS! All patches applied.'')
                          (seq_prog (print (replicate 60 CHR ''=''))
                          (seq_prog (print (''Source is ready in: '' @ eden_repo))
                          (print ''You can now build following standard eden instructions.''))))))
            )))))))))))))))))"

text \<open>
  The top level of the script. The file ends with the block
  \<open>if __name__ == "__main__": main()\<close> written twice (lines 161 to 166), so a run of
  the importer calls \<open>main\<close> and, when that call returns, calls it a second time; a call
  that exits ends the process. \<open>e1\<close> and \<open>e2\<close> are what lies outside the script during
  the first and during the second call.
\<close>

definition apply_script :: "config \<Rightarrow> env \<Rightarrow> env \<Rightarrow> string list \<Rightarrow> unit prog" where
  "apply_script cfg e1 e2 argv = seq_prog (apply_main cfg e1 argv) (apply_main cfg e2 argv)"

section \<open>The exporter: \<open>export_patches.py\<close>\<close>

definition UPSTREAM_REMOTE :: string where
  "UPSTREAM_REMOTE = ''gitlab''"

definition UPSTREAM_BRANCH :: string where
  "UPSTREAM_BRANCH = ''master''"

definition export_script_name :: string where
  "export_script_name = ''export_patches.py''"

definition export_run_git ::
  "env \<Rightarrow> string list \<Rightarrow> string \<Rightarrow> bool \<Rightarrow> bool \<Rightarrow> (int \<times> string option) prog" where
  "export_run_git e args d capture check =
     seq_prog (print (''  > '' @ join '' '' (''git'' # args)))
       (bind_prog (subprocess_run e args d) (\<lambda>(returncode, out).
          if check \<and> returncode \<noteq> 0
          then sys_exit_msg (''Command failed with exit code '' @ str_int returncode)
          else ret (returncode, if capture then Some out else None)))"

definition print_done :: "config \<Rightarrow> nat \<Rightarrow> unit prog" where
  "print_done cfg patch_count =
     seq_prog (print [])
    (seq_prog (print (replicate 60 CHR ''=''))
    (seq_prog (print ''DONE!'')
    (seq_prog (print (replicate 60 CHR ''=''))
    (seq_prog (print (''  Patches exported: '' @ str_nat patch_count))
    (seq_prog (print (''  Location: '' @ path_str (PATCHES_DIR cfg)))
    (seq_prog (print [])
    (seq_prog (print ''Next steps:'')
    (seq_prog (print ''  1. Review the generated patches'')
    (print ''  2. Commit and push to puni-patcher repo'')))))))))"

text \<open>\<open>PATCHES_DIR.mkdir(parents=True, exist_ok=True)\<close>.\<close>

definition mkdir_patches :: "unit prog" where
  "mkdir_patches w =
     Return () (w\<lparr>patches := Some (case patches w of None \<Rightarrow> [] | Some d \<Rightarrow> d)\<rparr>)"

text \<open>\<open>unlink\<close> of a path in the patches directory; a missing file raises.\<close>

definition unlink :: "path \<Rightarrow> unit prog" where
  "unlink f w =
     (case patches w of
        None \<Rightarrow> raise ''FileNotFoundError'' w
      | Some d \<Rightarrow>
          if path_name f \<in> set (map fst d)
          then Return () (w\<lparr>patches := Some (AList.delete (path_name f) d)\<rparr>)
          else raise ''FileNotFoundError'' w)"

fun unlink_each :: "path list \<Rightarrow> unit prog" where
  "unlink_each [] w = ret () w"
| "unlink_each (f # fs) w =
     seq_prog (unlink f)
       (seq_prog (print (''  Removed: '' @ path_name f)) (unlink_each fs)) w"

definition clean_old_patches :: "config \<Rightarrow> unit prog" where
  "clean_old_patches cfg =
     seq_prog (print_header 1 5 ''Cleaning old patches...'')
    (seq_prog mkdir_patches
    (bind_prog (glob_patches cfg) (\<lambda>old_patches.
     seq_prog (unlink_each old_patches)
       (if old_patches = [] then print ''  (No old patches to remove)'' else ret ()))))"

definition generate_patches :: "config \<Rightarrow> env \<Rightarrow> string \<Rightarrow> unit prog" where
  "generate_patches cfg e eden_repo =
     seq_prog (print_header 2 5 ''Generating patches (git format-patch)...'')
       (seq_prog
          (export_run_git e
             [''format-patch'', ''--no-numbered'', ''--no-signature'', ''--start-number'', ''1'',
              ''-o'', path_str (PATCHES_DIR cfg),
              UPSTREAM_REMOTE @ ''/'' @ UPSTREAM_BRANCH @ ''..HEAD'']
             eden_repo False True)
          (ret ()))"

text \<open>
  Opening \<open>preview.diff\<close> for writing empties it; the spawned \<open>git diff\<close> then writes its
  standard output there.
\<close>

definition write_preview :: "string \<Rightarrow> unit prog" where
  "write_preview text w = Return () (w\<lparr>preview_diff := Some text\<rparr>)"

definition generate_preview_diff :: "config \<Rightarrow> env \<Rightarrow> string \<Rightarrow> unit prog" where
  "generate_preview_diff cfg e eden_repo =
     seq_prog (print_header 3 5 ''Generating preview.diff...'')
       (let diff_range = UPSTREAM_REMOTE @ ''/'' @ UPSTREAM_BRANCH @ ''..HEAD''
        in seq_prog (write_preview [])
          (bind_prog (subprocess_run e [''diff'', diff_range] eden_repo) (\<lambda>(returncode, out).
           seq_prog (write_preview out)
             (print (''  Written: '' @ path_str (PREVIEW_DIFF cfg))))))"

text \<open>
  Writing \<open>patches/series\<close>: opening the file raises when the directory is absent.
\<close>

definition write_series :: "string \<Rightarrow> unit prog" where
  "write_series text w =
     (case patches w of
        None \<Rightarrow> raise ''FileNotFoundError'' w
      | Some d \<Rightarrow> Return () (w\<lparr>patches := Some (AList.update ''series'' text d)\<rparr>))"

definition generate_series_file :: "config \<Rightarrow> string list prog" where
  "generate_series_file cfg =
     seq_prog (print_header 4 5 ''Generating patches/series...'')
    (bind_prog (glob_patches cfg) (\<lambda>globbed.
     let patch_files = sort (map path_name globbed);
         series_file = path_div (PATCHES_DIR cfg) ''series''
     in seq_prog (write_series (concat (map (\<lambda>patch. patch @ [CHR 10]) patch_files)))
       (seq_prog
          (print (''  Written: '' @ path_str series_file @ '' (''
                  @ str_nat (length patch_files) @ '' patches)''))
          (ret patch_files))))"

definition write_base_commit :: "string \<Rightarrow> unit prog" where
  "write_base_commit text w = Return () (w\<lparr>base_commit_txt := Some text\<rparr>)"

definition update_base_commit :: "env \<Rightarrow> string \<Rightarrow> unit prog" where
  "update_base_commit e eden_repo =
     seq_prog (print_header 5 5 ''Updating BASE_COMMIT.txt...'')
       (bind_prog
          (export_run_git e [''rev-parse'', UPSTREAM_REMOTE @ ''/'' @ UPSTREAM_BRANCH]
             eden_repo True False)
          (\<lambda>(returncode, out).
             if returncode \<noteq> 0
             then print ''  Warning: Could not get upstream commit hash''
             else (case out of
                     None \<Rightarrow> raise ''AttributeError''
                   | Some text \<Rightarrow>
                       (let new_commit = strip text
                        in seq_prog (write_base_commit (new_commit @ [CHR 10]))
                             (print (''  Updated commit: '' @ new_commit))))))"

definition export_validate_eden_repo :: "env \<Rightarrow> string \<Rightarrow> unit prog" where
  "export_validate_eden_repo e eden_repo w =
     (if eden_repo \<notin> set (git_dirs w)
      then sys_exit_msg
             (''Error: '' @ [CHR 39] @ eden_repo @ [CHR 39] @ '' is not a git repository!''
              @ [CHR 10, CHR 10] @ ''Usage:'' @ [CHR 10]
              @ ''  python '' @ export_script_name @ '' [path-to-eden-repo]'' @ [CHR 10]
              @ ''  python '' @ export_script_name @ ''  # uses current directory'') w
      else bind_prog
             (export_run_git e [''remote'', ''get-url'', UPSTREAM_REMOTE] eden_repo True False)
             (\<lambda>(returncode, out).
                if returncode \<noteq> 0
                then sys_exit_msg
                       (''Error: No '' @ [CHR 39] @ UPSTREAM_REMOTE @ [CHR 39]
                        @ '' remote found in eden repo.'' @ [CHR 10]
                        @ ''  Add a remote named '' @ [CHR 39] @ UPSTREAM_REMOTE @ [CHR 39]
                        @ '' pointing to your upstream.'')
                else ret ()) w)"

definition export_main :: "config \<Rightarrow> env \<Rightarrow> string list \<Rightarrow> unit prog" where
  "export_main cfg e argv =
     (let eden_repo = (if length argv \<ge> 2 then resolve e (argv ! 1) else cwd e)
      in seq_prog (print (''Eden repo:   '' @ eden_repo))
        (seq_prog (print (''Patch repo:  '' @ path_str (PATCH_REPO cfg)))
        (seq_prog (print [])
        (seq_prog (export_validate_eden_repo e eden_repo)
        (seq_prog (clean_old_patches cfg)
        (seq_prog (generate_patches cfg e eden_repo)
        (seq_prog (generate_preview_diff cfg e eden_repo)
        (bind_prog (generate_series_file cfg) (\<lambda>patch_files.
         seq_prog (update_base_commit e eden_repo)
           (print_done cfg (length patch_files)))))))))))"

text \<open>
  The exporter's file ends with one \<open>if __name__ == "__main__": main()\<close> block: a run of
  the exporter is one call of \<open>export_main\<close>.
\<close>

section \<open>Observing a run\<close>

text \<open>
  The exit status of a process whose top-level program gave the outcome: 0 when the program
  ran to its end, the status passed to \<open>sys.exit\<close>, and 1 when an exception ended it. The
  top-level program of the importer is \<open>apply_script\<close>, that of the exporter
  \<open>export_main\<close>; of a call that exits, it is the status the process ends with there.
\<close>

fun exit_status :: "'a outcome \<Rightarrow> nat" where
  "exit_status (Return x w) = 0"
| "exit_status (Exit n w) = n"
| "exit_status (Uncaught x w) = 1"

text \<open>What a run added to the trace of the world it started in.\<close>

definition new_events :: "world \<Rightarrow> 'a outcome \<Rightarrow> event list" where
  "new_events w r = drop (length (trace w)) (trace (final r))"

text \<open>
  The entries of the patches directory (none when it is absent), the entries that are no
  patch files, and the manifest \<open>patches/series\<close>. A directory never lists a name twice:
  \<open>wf_world\<close>.
\<close>

definition listing :: "world \<Rightarrow> (string \<times> string) list" where
  "listing w = (case patches w of None \<Rightarrow> [] | Some d \<Rightarrow> d)"

definition wf_world :: "world \<Rightarrow> bool" where
  "wf_world w = (case patches w of None \<Rightarrow> True | Some d \<Rightarrow> distinct (map fst d))"

definition kept :: "world \<Rightarrow> (string \<times> string) list" where
  "kept w = filter (\<lambda>x. \<not> is_patch (fst x)) (listing w)"

definition series_file :: "world \<Rightarrow> string option" where
  "series_file w = map_of (listing w) ''series''"

text \<open>
  A directory after \<open>git format-patch\<close> has written its files into it, and the text of the
  manifest for a directory.
\<close>

definition written :: "env \<Rightarrow> (string \<times> string) list \<Rightarrow> (string \<times> string) list" where
  "written e d = foldl (\<lambda>d (n, c). AList.update n c d) d (format_patch_files e)"

definition series_text :: "(string \<times> string) list \<Rightarrow> string" where
  "series_text d = concat (map (\<lambda>patch. patch @ [CHR 10]) (sort (filter is_patch (map fst d))))"

text \<open>
  The importer gets as far as its fourth step when it has a path argument, a base commit of
  at least 7 characters, a \<open>.git\<close> entry in the target, and the four git commands whose
  failure is fatal succeed. \<open>apply_prelude\<close> is what it has printed and spawned by then,
  and \<open>am_command\<close> the command line of its batch \<open>git am\<close>.
\<close>

definition step4_reached :: "env \<Rightarrow> string list \<Rightarrow> world \<Rightarrow> bool" where
  "step4_reached e argv w =
     (2 \<le> length argv \<and>
      (case base_commit_txt w of
         None \<Rightarrow> False
       | Some text \<Rightarrow>
           7 \<le> length (strip text) \<and>
           resolve e (argv ! 1) \<in> set (git_dirs w) \<and>
           fst (git e (resolve e (argv ! 1)) [''cat-file'', ''-t'', strip text]) = 0 \<and>
           fst (git e (resolve e (argv ! 1)) [''checkout'', ''-f'', strip text]) = 0 \<and>
           fst (git e (resolve e (argv ! 1)) [''clean'', ''-fdx'']) = 0 \<and>
           fst (git e (resolve e (argv ! 1)) [''checkout'', ''-b'', ''patched-release'']) = 0))"

definition apply_prelude :: "config \<Rightarrow> string \<Rightarrow> string \<Rightarrow> event list" where
  "apply_prelude cfg eden_repo commit =
     [Out (''Eden repo:   '' @ eden_repo),
      Out (''Patch repo:  '' @ path_str (PATCH_REPO cfg)),
      Out [],
      Out ''[1/4] Loading BASE_COMMIT.txt...'',
      Out (''  Expected commit: '' @ take 12 commit @ ''...''),
      Out (''  > git cat-file -t '' @ commit),
      Spawn eden_repo [''git'', ''cat-file'', ''-t'', commit],
      Out ''[2/4] Checking out base commit...'',
      Out (''  > git checkout -f '' @ commit),
      Spawn eden_repo [''git'', ''checkout'', ''-f'', commit],
      Out ''  > git clean -fdx'',
      Spawn eden_repo [''git'', ''clean'', ''-fdx''],
      Out ''[3/4] Creating patched-release branch...'',
      Spawn eden_repo [''git'', ''branch'', ''-D'', ''patched-release''],
      Out ''  > git checkout -b patched-release'',
      Spawn eden_repo [''git'', ''checkout'', ''-b'', ''patched-release''],
      Out ''[4/4] Applying patches...'']"

definition am_command :: "config \<Rightarrow> world \<Rightarrow> string list" where
  "am_command cfg w =
     [''git'', ''am'', ''--3way'']
     @ map (\<lambda>n. path_str (PATCHES_DIR cfg) @ ''/'' @ n) (sort (filter is_patch (map fst (listing w))))"

text \<open>What a call of the importer's \<open>main\<close> prints and spawns in a fourth step that succeeds.\<close>

definition am_success :: "config \<Rightarrow> string \<Rightarrow> world \<Rightarrow> event list" where
  "am_success cfg eden_repo w =
     [Out (''  Found '' @ str_nat (length (filter is_patch (map fst (listing w)))) @ '' patch(es)''),
      Spawn eden_repo (am_command cfg w),
      Out ([CHR 10] @ replicate 60 CHR ''=''),
      Out ''SUCCESS! All patches applied.'',
      Out (replicate 60 CHR ''=''),
      Out (''Source is ready in: '' @ eden_repo),
      Out ''You can now build following standard eden instructions.'']"

text \<open>
  The repository the exporter works on, and when its validation passes. \<open>export_opening\<close>
  is what the exporter has printed and spawned once \<open>git format-patch\<close> has run, with
  \<open>removed_lines\<close> the lines of the cleaning step; \<open>export_closing\<close> is the rest of a run
  in which \<open>format-patch\<close> succeeded.
\<close>

definition export_repo :: "env \<Rightarrow> string list \<Rightarrow> string" where
  "export_repo e argv = (if 2 \<le> length argv then resolve e (argv ! 1) else cwd e)"

definition export_valid :: "env \<Rightarrow> string list \<Rightarrow> world \<Rightarrow> bool" where
  "export_valid e argv w =
     (export_repo e argv \<in> set (git_dirs w) \<and>
      fst (git e (export_repo e argv) [''remote'', ''get-url'', ''gitlab'']) = 0)"

definition format_patch_args :: "config \<Rightarrow> string list" where
  "format_patch_args cfg =
     [''format-patch'', ''--no-numbered'', ''--no-signature'', ''--start-number'', ''1'',
      ''-o'', path_str (PATCHES_DIR cfg), ''gitlab/master..HEAD'']"

definition removed_lines :: "world \<Rightarrow> event list" where
  "removed_lines w =
     map (\<lambda>n. Out (''  Removed: '' @ n)) (filter is_patch (map fst (listing w)))
     @ (if filter is_patch (map fst (listing w)) = []
        then [Out ''  (No old patches to remove)''] else [])"

definition export_opening :: "config \<Rightarrow> env \<Rightarrow> string list \<Rightarrow> world \<Rightarrow> event list" where
  "export_opening cfg e argv w =
     [Out (''Eden repo:   '' @ export_repo e argv),
      Out (''Patch repo:  '' @ path_str (PATCH_REPO cfg)),
      Out [],
      Out ''  > git remote get-url gitlab'',
      Spawn (export_repo e argv) [''git'', ''remote'', ''get-url'', ''gitlab''],
      Out ''[1/5] Cleaning old patches...'']
     @ removed_lines w
     @ [Out ''[2/5] Generating patches (git format-patch)...'',
        Out (''  > '' @ join '' '' (''git'' # format_patch_args cfg)),
        Spawn (export_repo e argv) (''git'' # format_patch_args cfg)]"

definition export_closing :: "config \<Rightarrow> env \<Rightarrow> string list \<Rightarrow> world \<Rightarrow> event list" where
  "export_closing cfg e argv w =
     [Out ''[3/5] Generating preview.diff...'',
      Spawn (export_repo e argv) [''git'', ''diff'', ''gitlab/master..HEAD''],
      Out (''  Written: '' @ path_str (PREVIEW_DIFF cfg)),
      Out ''[4/5] Generating patches/series...'',
      Out (''  Written: '' @ path_str (path_div (PATCHES_DIR cfg) ''series'') @ '' (''
           @ str_nat (length (filter is_patch (map fst (written e (kept w))))) @ '' patches)''),
      Out ''[5/5] Updating BASE_COMMIT.txt...'',
      Out ''  > git rev-parse gitlab/master'',
      Spawn (export_repo e argv) [''git'', ''rev-parse'', ''gitlab/master''],
      (if fst (git e (export_repo e argv) [''rev-parse'', ''gitlab/master'']) \<noteq> 0
       then Out ''  Warning: Could not get upstream commit hash''
       else Out (''  Updated commit: ''
                 @ strip (snd (git e (export_repo e argv) [''rev-parse'', ''gitlab/master''])))),
      Out [], Out (replicate 60 CHR ''=''), Out ''DONE!'', Out (replicate 60 CHR ''=''),
      Out (''  Patches exported: ''
           @ str_nat (length (filter is_patch (map fst (written e (kept w)))))),
      Out (''  Location: '' @ path_str (PATCHES_DIR cfg)),
      Out [], Out ''Next steps:'', Out ''  1. Review the generated patches'',
      Out ''  2. Commit and push to puni-patcher repo'']"

subsection \<open>Concrete runs\<close>

text \<open>
  A patch repository at \<open>/puni-patcher\<close>; a git whose subcommand \<open>failing\<close> exits with 128
  and prints nothing while every other one exits with 0 and prints \<open>printed\<close>, and whose
  \<open>format-patch\<close> writes one patch file; a world with a target repository at \<open>/eden\<close>, a
  base commit file holding a hash and a given patches directory. \<open>quiet_env\<close> is a git
  that succeeds, prints nothing and writes no patch file.
\<close>

definition demo_cfg :: config where
  "demo_cfg = \<lparr>PATCH_REPO = ['''', ''puni-patcher'']\<rparr>"

definition demo_hash :: string where
  "demo_hash = ''0123456789abcdef''"

definition demo_argv :: "string list" where
  "demo_argv = [''script.py'', ''/eden'']"

definition demo_listing :: "(string \<times> string) list" where
  "demo_listing =
     [(''0002-b.patch'', ''B''), (''series'', ''stale''), (''0003-c.patch'', ''C''),
      (''0001-a.patch'', ''A'')]"

definition demo_env :: "string \<Rightarrow> string \<Rightarrow> env" where
  "demo_env failing printed =
     \<lparr>git = (\<lambda>d args. if take 1 args = [failing] then (128, []) else (0, printed)),
      format_patch_files = [(''0001-a.patch'', ''A'')],
      resolve = (\<lambda>p. p),
      cwd = ''/eden''\<rparr>"

definition demo_world :: "(string \<times> string) list option \<Rightarrow> world" where
  "demo_world dir =
     \<lparr>base_commit_txt = Some (demo_hash @ [CHR 10]), patches = dir, preview_diff = None,
      git_dirs = [''/eden''], trace = []\<rparr>"


section \<open>Rules for running the programs\<close>

lemma spawns_append [simp]: "spawns (xs @ ys) = spawns xs @ spawns ys"
  by (induction xs rule: spawns.induct) simp_all

lemma git_effect_other [simp]:
  "a \<noteq> ''format-patch'' \<Longrightarrow> git_effect e (a # args) w = w"
  by (simp add: git_effect_def)

lemma str_nat_digits [simp]:
  "str_nat 1 = ''1''" "str_nat 2 = ''2''" "str_nat 3 = ''3''" "str_nat 4 = ''4''" "str_nat 5 = ''5''"
  by (simp_all add: digit_char_def)

lemma new_events_simps [simp]:
  "new_events w (Return x (w\<lparr>trace := trace w @ evs\<rparr>)) = evs"
  "new_events w (Exit n (w\<lparr>trace := trace w @ evs\<rparr>)) = evs"
  "new_events w (Uncaught x' (w\<lparr>trace := trace w @ evs\<rparr>)) = evs"
  by (simp_all add: new_events_def)

named_theorems run

lemma bind_ret [run]: "bind_prog (ret x) f w = f x w"
  by (simp add: bind_prog_def ret_def)

lemma bind_print [run]: "bind_prog (print s) f w = f () (w\<lparr>trace := trace w @ [Out s]\<rparr>)"
  by (simp add: bind_prog_def print_def emit_def)

lemma bind_sys_exit_msg [run]:
  "bind_prog (sys_exit_msg m) f w = Exit 1 (w\<lparr>trace := trace w @ [Err m]\<rparr>)"
  by (simp add: bind_prog_def sys_exit_msg_def emit_def)

lemma bind_sys_exit [run]: "bind_prog (sys_exit k) f w = Exit k w"
  by (simp add: bind_prog_def sys_exit_def)

lemma bind_raise [run]: "bind_prog (raise x) f w = Uncaught x w"
  by (simp add: bind_prog_def raise_def)

lemma bind_subprocess_run [run]:
  "bind_prog (subprocess_run e args d) f w =
     f (git e d args) (git_effect e args (w\<lparr>trace := trace w @ [Spawn d (''git'' # args)]\<rparr>))"
  by (simp add: bind_prog_def subprocess_run_def emit_def)

lemma bind_assoc [run]:
  "bind_prog (bind_prog m f) g w = bind_prog m (\<lambda>x. bind_prog (f x) g) w"
  by (simp add: bind_prog_def split: outcome.split)

lemma bind_if [run]:
  "bind_prog (if c then a else b) f w = (if c then bind_prog a f w else bind_prog b f w)"
  by simp

lemma bind_glob_patches [run]:
  "bind_prog (glob_patches cfg) f w =
     f (case patches w of
          None \<Rightarrow> []
        | Some d \<Rightarrow> map (path_div (PATCHES_DIR cfg)) (filter is_patch (map fst d))) w"
  by (simp add: bind_prog_def glob_patches_def)

lemma bind_load_base_commit [run]:
  "bind_prog (load_base_commit cfg) f w =
     (case base_commit_txt w of
        None \<Rightarrow> Exit 1 (w\<lparr>trace := trace w @
                 [Err (''Error: '' @ path_str (BASE_COMMIT_FILE cfg) @ '' not found!'')]\<rparr>)
      | Some text \<Rightarrow>
          if length (strip text) < 7
          then Exit 1 (w\<lparr>trace := trace w @ [Err ''Error: BASE_COMMIT.txt is empty or invalid!'']\<rparr>)
          else f (strip text) w)"
  by (auto simp: bind_prog_def load_base_commit_def sys_exit_msg_def emit_def ret_def Let_def
      split: option.split)

lemma bind_apply_validate [run]:
  "bind_prog (apply_validate_eden_repo e eden_repo c) f w =
     (if eden_repo \<notin> set (git_dirs w)
      then Exit 1 (w\<lparr>trace := trace w @ [Err
             (''Error: '' @ [CHR 39] @ eden_repo @ [CHR 39] @ '' is not a git repository!''
              @ [CHR 10, CHR 10] @ ''Usage:'' @ [CHR 10]
              @ ''  python '' @ apply_script_name @ '' <path-to-eden-repo>'')]\<rparr>)
      else bind_prog
             (bind_prog (apply_run_git e [''cat-file'', ''-t'', c] eden_repo True False)
             (\<lambda>(returncode, out).
                if returncode \<noteq> 0
                then sys_exit_msg
                       (''Error: Commit '' @ take 12 c
                        @ '' not found in repository.'' @ [CHR 10]
                        @ ''  Try running '' @ [CHR 39] @ ''git fetch'' @ [CHR 39]
                        @ '' in your eden repo to update.'')
                else ret ())) f w)"
  by (simp add: bind_prog_def apply_validate_eden_repo_def sys_exit_msg_def emit_def)

lemma run_last [run]:
  "print s w = Return () (w\<lparr>trace := trace w @ [Out s]\<rparr>)"
  "sys_exit k w = Exit k w"
  "ret x w = Return x w"
  by (simp_all add: print_def emit_def sys_exit_def ret_def)

lemmas run_simps = run seq_prog_def print_header_def apply_run_git_def case_prod_beta Let_def

lemmas demo_defs = demo_cfg_def demo_env_def demo_world_def demo_hash_def demo_argv_def
  demo_listing_def strip_def isspace_def

declare str_nat.simps [simp del]

lemma str_nat_Suc_0 [simp]: "str_nat (Suc 0) = ''1''"
  by (simp add: str_nat.simps digit_char_def)

lemma export_validate_unfold:
  "bind_prog (export_validate_eden_repo e eden_repo) f w =
     (if eden_repo \<notin> set (git_dirs w)
      then Exit 1 (w\<lparr>trace := trace w @ [Err
             (''Error: '' @ [CHR 39] @ eden_repo @ [CHR 39] @ '' is not a git repository!''
              @ [CHR 10, CHR 10] @ ''Usage:'' @ [CHR 10]
              @ ''  python '' @ export_script_name @ '' [path-to-eden-repo]'' @ [CHR 10]
              @ ''  python '' @ export_script_name @ ''  # uses current directory'')]\<rparr>)
      else bind_prog
             (bind_prog
                (export_run_git e [''remote'', ''get-url'', UPSTREAM_REMOTE] eden_repo True False)
                (\<lambda>(returncode, out).
                if returncode \<noteq> 0
                then sys_exit_msg
                       (''Error: No '' @ [CHR 39] @ UPSTREAM_REMOTE @ [CHR 39]
                        @ '' remote found in eden repo.'' @ [CHR 10]
                        @ ''  Add a remote named '' @ [CHR 39] @ UPSTREAM_REMOTE @ [CHR 39]
                        @ '' pointing to your upstream.'')
                else ret ())) f w)"
  by (simp add: bind_prog_def export_validate_eden_repo_def sys_exit_msg_def emit_def)

lemma bind_mkdir_patches [run]:
  "bind_prog mkdir_patches f w =
     f () (w\<lparr>patches := Some (case patches w of None \<Rightarrow> [] | Some d \<Rightarrow> d)\<rparr>)"
  by (simp add: bind_prog_def mkdir_patches_def)

lemma bind_write_preview [run]:
  "bind_prog (write_preview text) f w = f () (w\<lparr>preview_diff := Some text\<rparr>)"
  by (simp add: bind_prog_def write_preview_def)

lemma bind_write_base_commit [run]:
  "bind_prog (write_base_commit text) f w = f () (w\<lparr>base_commit_txt := Some text\<rparr>)"
  by (simp add: bind_prog_def write_base_commit_def)

lemma bind_write_series [run]:
  "bind_prog (write_series text) f w =
     (case patches w of
        None \<Rightarrow> Uncaught ''FileNotFoundError'' w
      | Some d \<Rightarrow> f () (w\<lparr>patches := Some (AList.update ''series'' text d)\<rparr>))"
  by (simp add: bind_prog_def write_series_def raise_def split: option.split)

lemma path_name_div [simp]: "path_name (path_div p n) = n"
  by (simp add: path_name_def path_div_def)

lemma bind_unlink_each:
  assumes "distinct ns" "set ns \<subseteq> fst ` set d" "patches w = Some d"
  shows "bind_prog (unlink_each (map (path_div p) ns)) f w =
           f () (w\<lparr>patches := Some (filter (\<lambda>x. fst x \<notin> set ns) d),
                   trace := trace w @ map (\<lambda>n. Out (''  Removed: '' @ n)) ns\<rparr>)"
  using assms
proof (induction ns arbitrary: w d)
  case Nil
  then show ?case by (cases w) (simp add: bind_prog_def ret_def)
next
  case (Cons n ns)
  let ?w = "w\<lparr>patches := Some (AList.delete n d), trace := trace w @ [Out (''  Removed: '' @ n)]\<rparr>"
  have sub: "set ns \<subseteq> fst ` set (AList.delete n d)"
  proof
    fix x assume x: "x \<in> set ns"
    with Cons.prems have "x \<noteq> n" "x \<in> fst ` set d" by auto
    then obtain b where "(x, b) \<in> set d" by auto
    with \<open>x \<noteq> n\<close> have "(x, b) \<in> set (AList.delete n d)"
      by (simp add: AList.delete_eq)
    then show "x \<in> fst ` set (AList.delete n d)" by force
  qed
  have "bind_prog (unlink_each (map (path_div p) (n # ns))) f w
          = bind_prog (unlink_each (map (path_div p) ns)) f ?w"
    using Cons.prems
    by (simp add: bind_prog_def seq_prog_def unlink_def print_def emit_def image_iff)
  also have "\<dots> = f () (?w\<lparr>patches := Some (filter (\<lambda>x. fst x \<notin> set ns) (AList.delete n d)),
                   trace := trace ?w @ map (\<lambda>n. Out (''  Removed: '' @ n)) ns\<rparr>)"
    using Cons.prems sub by (intro Cons.IH) simp_all
  also have "filter (\<lambda>x. fst x \<notin> set ns) (AList.delete n d) = filter (\<lambda>x. fst x \<notin> set (n # ns)) d"
    by (auto simp: AList.delete_eq intro: filter_cong)
  finally show ?case by simp
qed

lemma bind_clean_old_patches:
  assumes "wf_world w"
  shows "bind_prog (clean_old_patches cfg) f w =
     f () (w\<lparr>patches := Some (filter (\<lambda>x. \<not> is_patch (fst x)) (listing w)),
             trace := trace w @ [Out ''[1/5] Cleaning old patches...'']
               @ map (\<lambda>n. Out (''  Removed: '' @ n)) (filter is_patch (map fst (listing w)))
               @ (if filter is_patch (map fst (listing w)) = []
                  then [Out ''  (No old patches to remove)''] else [])\<rparr>)"
proof -
  let ?d = "listing w"
  let ?ns = "filter is_patch (map fst ?d)"
  let ?w = "w\<lparr>trace := trace w @ [Out ''[1/5] Cleaning old patches...''], patches := Some ?d\<rparr>"
  have d: "distinct (map fst ?d)"
    using assms by (simp add: wf_world_def listing_def split: option.splits)
  have 1: "distinct ?ns" "set ?ns \<subseteq> fst ` set ?d" "patches ?w = Some ?d"
    using d by auto
  have 2: "filter (\<lambda>x. fst x \<notin> set ?ns) ?d = filter (\<lambda>x. \<not> is_patch (fst x)) ?d"
    by (auto intro: filter_cong)
  have "bind_prog (clean_old_patches cfg) f w =
          bind_prog (unlink_each (map (path_div (PATCHES_DIR cfg)) ?ns))
            (\<lambda>_. bind_prog (if ?ns = [] then print ''  (No old patches to remove)'' else ret ()) f) ?w"
    by (simp add: clean_old_patches_def run seq_prog_def print_header_def listing_def)
  also note bind_unlink_each[OF 1]
  finally have F: "bind_prog (clean_old_patches cfg) f w =
      bind_prog (if ?ns = [] then print ''  (No old patches to remove)'' else ret ()) f
        (?w\<lparr>patches := Some (filter (\<lambda>x. fst x \<notin> set ?ns) ?d),
             trace := trace ?w @ map (\<lambda>n. Out (''  Removed: '' @ n)) ?ns\<rparr>)" .
  show ?thesis
    unfolding F 2 by (simp add: run)
qed

lemma wf_world_trace [simp]: "wf_world (w\<lparr>trace := t\<rparr>) = wf_world w"
  by (simp add: wf_world_def)

lemma listing_trace [simp]: "listing (w\<lparr>trace := t\<rparr>) = listing w"
  by (simp add: listing_def)

lemma git_effect_format_patch [simp]:
  "git_effect e (''format-patch'' # args) w = w\<lparr>patches := Some (written e (listing w))\<rparr>"
  by (simp add: git_effect_def written_def listing_def)

lemma listing_patches [simp]: "listing (w\<lparr>patches := Some d\<rparr>) = d"
  by (simp add: listing_def)

lemma map_path_name_div [simp]: "map (path_name \<circ> path_div p) ns = ns"
  by (induction ns) simp_all

lemma world_order:
  "w\<lparr>trace := t\<rparr>\<lparr>patches := p\<rparr> = w\<lparr>patches := p\<rparr>\<lparr>trace := t\<rparr>"
  "w\<lparr>trace := t\<rparr>\<lparr>preview_diff := v\<rparr> = w\<lparr>preview_diff := v\<rparr>\<lparr>trace := t\<rparr>"
  "w\<lparr>trace := t\<rparr>\<lparr>base_commit_txt := b\<rparr> = w\<lparr>base_commit_txt := b\<rparr>\<lparr>trace := t\<rparr>"
  "w\<lparr>preview_diff := v\<rparr>\<lparr>patches := p\<rparr> = w\<lparr>patches := p\<rparr>\<lparr>preview_diff := v\<rparr>"
  "w\<lparr>preview_diff := v\<rparr>\<lparr>base_commit_txt := b\<rparr> = w\<lparr>base_commit_txt := b\<rparr>\<lparr>preview_diff := v\<rparr>"
  "w\<lparr>patches := p\<rparr>\<lparr>base_commit_txt := b\<rparr> = w\<lparr>base_commit_txt := b\<rparr>\<lparr>patches := p\<rparr>"
  by simp_all

lemma bind_apply_run_git:
  assumes "a \<noteq> ''format-patch''"
  shows "bind_prog (apply_run_git e (a # args) d capture check) f w =
     (if check \<and> fst (git e d (a # args)) \<noteq> 0
      then Exit 1 (w\<lparr>trace := trace w @
             [Out (''  > '' @ join '' '' (''git'' # a # args)), Spawn d (''git'' # a # args),
              Out (''Command failed with exit code '' @ str_int (fst (git e d (a # args))))]\<rparr>)
      else f (fst (git e d (a # args)), if capture then Some (snd (git e d (a # args))) else None)
             (w\<lparr>trace := trace w @
                [Out (''  > '' @ join '' '' (''git'' # a # args)), Spawn d (''git'' # a # args)]\<rparr>))"
  using assms by (simp add: apply_run_git_def run seq_prog_def case_prod_beta)

lemma bind_export_run_git:
  assumes "a \<noteq> ''format-patch''"
  shows "bind_prog (export_run_git e (a # args) d capture check) f w =
     (if check \<and> fst (git e d (a # args)) \<noteq> 0
      then Exit 1 (w\<lparr>trace := trace w @
             [Out (''  > '' @ join '' '' (''git'' # a # args)), Spawn d (''git'' # a # args),
              Err (''Command failed with exit code '' @ str_int (fst (git e d (a # args))))]\<rparr>)
      else f (fst (git e d (a # args)), if capture then Some (snd (git e d (a # args))) else None)
             (w\<lparr>trace := trace w @
                [Out (''  > '' @ join '' '' (''git'' # a # args)), Spawn d (''git'' # a # args)]\<rparr>))"
  using assms by (simp add: export_run_git_def run seq_prog_def case_prod_beta)

lemma bind_generate_patches:
  "bind_prog (generate_patches cfg e eden_repo) f w =
     (if fst (git e eden_repo (format_patch_args cfg)) \<noteq> 0
      then Exit 1 (w\<lparr>patches := Some (written e (listing w)),
             trace := trace w @
               [Out ''[2/5] Generating patches (git format-patch)...'',
                Out (''  > '' @ join '' '' (''git'' # format_patch_args cfg)),
                Spawn eden_repo (''git'' # format_patch_args cfg),
                Err (''Command failed with exit code ''
                     @ str_int (fst (git e eden_repo (format_patch_args cfg))))]\<rparr>)
      else f () (w\<lparr>patches := Some (written e (listing w)),
             trace := trace w @
               [Out ''[2/5] Generating patches (git format-patch)...'',
                Out (''  > '' @ join '' '' (''git'' # format_patch_args cfg)),
                Spawn eden_repo (''git'' # format_patch_args cfg)]\<rparr>))"
  by (simp add: generate_patches_def export_run_git_def run seq_prog_def print_header_def
      case_prod_beta format_patch_args_def UPSTREAM_REMOTE_def UPSTREAM_BRANCH_def world_order)

lemma bind_generate_preview_diff:
  "bind_prog (generate_preview_diff cfg e eden_repo) f w =
     f () (w\<lparr>preview_diff := Some (snd (git e eden_repo [''diff'', ''gitlab/master..HEAD''])),
             trace := trace w @
               [Out ''[3/5] Generating preview.diff...'',
                Spawn eden_repo [''git'', ''diff'', ''gitlab/master..HEAD''],
                Out (''  Written: '' @ path_str (PREVIEW_DIFF cfg))]\<rparr>)"
  by (simp add: generate_preview_diff_def run seq_prog_def print_header_def Let_def
      case_prod_beta UPSTREAM_REMOTE_def UPSTREAM_BRANCH_def world_order)

lemma bind_generate_series_file:
  assumes "patches w = Some d"
  shows "bind_prog (generate_series_file cfg) f w =
     f (sort (filter is_patch (map fst d)))
       (w\<lparr>patches := Some (AList.update ''series'' (series_text d) d),
          trace := trace w @
            [Out ''[4/5] Generating patches/series...'',
             Out (''  Written: '' @ path_str (path_div (PATCHES_DIR cfg) ''series'') @ '' (''
                  @ str_nat (length (filter is_patch (map fst d))) @ '' patches)'')]\<rparr>)"
  using assms
  by (simp add: generate_series_file_def run seq_prog_def print_header_def Let_def series_text_def
      world_order)

lemma bind_update_base_commit:
  "bind_prog (update_base_commit e eden_repo) f w =
     (if fst (git e eden_repo [''rev-parse'', ''gitlab/master'']) \<noteq> 0
      then f () (w\<lparr>trace := trace w @
             [Out ''[5/5] Updating BASE_COMMIT.txt...'',
              Out ''  > git rev-parse gitlab/master'',
              Spawn eden_repo [''git'', ''rev-parse'', ''gitlab/master''],
              Out ''  Warning: Could not get upstream commit hash'']\<rparr>)
      else f () (w\<lparr>base_commit_txt :=
                     Some (strip (snd (git e eden_repo [''rev-parse'', ''gitlab/master''])) @ [CHR 10]),
             trace := trace w @
             [Out ''[5/5] Updating BASE_COMMIT.txt...'',
              Out ''  > git rev-parse gitlab/master'',
              Spawn eden_repo [''git'', ''rev-parse'', ''gitlab/master''],
              Out (''  Updated commit: ''
                   @ strip (snd (git e eden_repo [''rev-parse'', ''gitlab/master''])))]\<rparr>))"
  by (simp add: update_base_commit_def run seq_prog_def print_header_def Let_def
      bind_export_run_git UPSTREAM_REMOTE_def UPSTREAM_BRANCH_def case_prod_beta world_order
      split: option.split)

lemma print_done_run:
  "print_done cfg k w =
     Return () (w\<lparr>trace := trace w @
       [Out [], Out (replicate 60 CHR ''=''), Out ''DONE!'', Out (replicate 60 CHR ''=''),
        Out (''  Patches exported: '' @ str_nat k),
        Out (''  Location: '' @ path_str (PATCHES_DIR cfg)),
        Out [], Out ''Next steps:'', Out ''  1. Review the generated patches'',
        Out ''  2. Commit and push to puni-patcher repo'']\<rparr>)"
  by (simp add: print_done_def run seq_prog_def)

lemma bind_export_validate:
  "bind_prog (export_validate_eden_repo e eden_repo) f w =
     (if eden_repo \<notin> set (git_dirs w)
      then Exit 1 (w\<lparr>trace := trace w @ [Err
             (''Error: '' @ [CHR 39] @ eden_repo @ [CHR 39] @ '' is not a git repository!''
              @ [CHR 10, CHR 10] @ ''Usage:'' @ [CHR 10]
              @ ''  python '' @ export_script_name @ '' [path-to-eden-repo]'' @ [CHR 10]
              @ ''  python '' @ export_script_name @ ''  # uses current directory'')]\<rparr>)
      else if fst (git e eden_repo [''remote'', ''get-url'', ''gitlab'']) \<noteq> 0
      then Exit 1 (w\<lparr>trace := trace w @
             [Out ''  > git remote get-url gitlab'',
              Spawn eden_repo [''git'', ''remote'', ''get-url'', ''gitlab''],
              Err (''Error: No '' @ [CHR 39] @ ''gitlab'' @ [CHR 39]
                        @ '' remote found in eden repo.'' @ [CHR 10]
                        @ ''  Add a remote named '' @ [CHR 39] @ ''gitlab'' @ [CHR 39]
                        @ '' pointing to your upstream.'')]\<rparr>)
      else f () (w\<lparr>trace := trace w @
             [Out ''  > git remote get-url gitlab'',
              Spawn eden_repo [''git'', ''remote'', ''get-url'', ''gitlab'']]\<rparr>))"
  by (simp add: export_validate_unfold run bind_export_run_git case_prod_beta UPSTREAM_REMOTE_def)

lemma export_main_fp_fails:
  assumes "wf_world w" "export_valid e argv w"
    "fst (git e (export_repo e argv) (format_patch_args cfg)) \<noteq> 0"
  shows "export_main cfg e argv w =
     Exit 1 (w\<lparr>patches := Some (written e (kept w)),
               trace := trace w @ export_opening cfg e argv w @
                 [Err (''Command failed with exit code ''
                       @ str_int (fst (git e (export_repo e argv) (format_patch_args cfg))))]\<rparr>)"
  using assms
  unfolding export_main_def export_repo_def[symmetric] Let_def
  by (simp add: run seq_prog_def bind_export_validate bind_clean_old_patches bind_generate_patches
      export_valid_def export_opening_def removed_lines_def kept_def world_order)

lemma export_main_fp_ok:
  assumes "wf_world w" "export_valid e argv w"
    "fst (git e (export_repo e argv) (format_patch_args cfg)) = 0"
  shows "export_main cfg e argv w =
     Return ()
       ((if fst (git e (export_repo e argv) [''rev-parse'', ''gitlab/master'']) \<noteq> 0
         then w
         else w\<lparr>base_commit_txt :=
                  Some (strip (snd (git e (export_repo e argv) [''rev-parse'', ''gitlab/master'']))
                        @ [CHR 10])\<rparr>)
        \<lparr>patches := Some (AList.update ''series'' (series_text (written e (kept w)))
                             (written e (kept w))),
          preview_diff := Some (snd (git e (export_repo e argv) [''diff'', ''gitlab/master..HEAD''])),
          trace := trace w @ export_opening cfg e argv w @ export_closing cfg e argv w\<rparr>)"
  using assms
  unfolding export_main_def export_repo_def[symmetric] Let_def
  by (simp add: run seq_prog_def bind_export_validate bind_clean_old_patches bind_generate_patches
      bind_generate_preview_diff bind_generate_series_file bind_update_base_commit print_done_run
      export_valid_def export_opening_def export_closing_def removed_lines_def kept_def world_order)

lemma export_main_invalid:
  assumes "\<not> export_valid e argv w"
  shows "export_main cfg e argv w =
     Exit 1 (w\<lparr>trace := trace w @
       [Out (''Eden repo:   '' @ export_repo e argv),
        Out (''Patch repo:  '' @ path_str (PATCH_REPO cfg)),
        Out []]
       @ (if export_repo e argv \<notin> set (git_dirs w)
          then [Err
             (''Error: '' @ [CHR 39] @ export_repo e argv @ [CHR 39] @ '' is not a git repository!''
              @ [CHR 10, CHR 10] @ ''Usage:'' @ [CHR 10]
              @ ''  python '' @ export_script_name @ '' [path-to-eden-repo]'' @ [CHR 10]
              @ ''  python '' @ export_script_name @ ''  # uses current directory'')]
          else [Out ''  > git remote get-url gitlab'',
              Spawn (export_repo e argv) [''git'', ''remote'', ''get-url'', ''gitlab''],
              Err (''Error: No '' @ [CHR 39] @ ''gitlab'' @ [CHR 39]
                        @ '' remote found in eden repo.'' @ [CHR 10]
                        @ ''  Add a remote named '' @ [CHR 39] @ ''gitlab'' @ [CHR 39]
                        @ '' pointing to your upstream.'')])\<rparr>)"
  using assms
  unfolding export_main_def export_repo_def[symmetric] Let_def
  by (simp add: run seq_prog_def bind_export_validate export_valid_def)

lemma insort_map_mono:
  assumes "\<And>a b. (f a \<le> f b) = (a \<le> b)"
  shows "insort (f x) (map f ys) = map f (insort x ys)"
  by (induction ys) (simp_all add: assms)

lemma sort_map_mono:
  assumes "\<And>a b. (f a \<le> f b) = (a \<le> b)"
  shows "sort (map f xs) = map f (sort xs)"
  by (induction xs) (simp_all add: insort_map_mono[OF assms])

lemma snoc_le_snoc: "(p @ [a] \<le> p @ [b]) = (a \<le> (b :: string))"
  by (induction p) (simp_all add: le_less)

lemma PATCHES_DIR_div: "path_div (PATCHES_DIR cfg) n = PATCHES_DIR cfg @ [n]"
  by (auto simp: path_div_def PATCHES_DIR_def dest: arg_cong[where f = last])

lemma PATCHES_DIR_nonempty: "PATCHES_DIR cfg \<noteq> []"
  by (simp add: path_div_def PATCHES_DIR_def)

lemma join_snoc: "p \<noteq> [] \<Longrightarrow> join sep (p @ [n]) = join sep p @ sep @ n"
  by (induction sep p rule: join.induct) simp_all

lemma sort_glob:
  "sort (map (path_div (PATCHES_DIR cfg)) ns) = map (path_div (PATCHES_DIR cfg)) (sort ns)"
  by (rule sort_map_mono) (simp add: PATCHES_DIR_div snoc_le_snoc)

lemma path_str_glob:
  "path_str (path_div (PATCHES_DIR cfg) n) = path_str (PATCHES_DIR cfg) @ ''/'' @ n"
  by (simp add: PATCHES_DIR_div path_str_def join_snoc PATCHES_DIR_nonempty)

lemma sort_Nil_iff [simp]: "(sort xs = []) = (xs = [])"
  by (metis length_sort length_0_conv)

lemma glob_listing:
  "(case patches w of None \<Rightarrow> []
    | Some d \<Rightarrow> map (path_div (PATCHES_DIR cfg)) (filter is_patch (map fst d)))
   = map (path_div (PATCHES_DIR cfg)) (filter is_patch (map fst (listing w)))"
  by (simp add: listing_def split: option.split)

lemma apply_main_step4:
  assumes "step4_reached e argv w" "base_commit_txt w = Some text"
  shows "apply_main cfg e argv w =
     (if filter is_patch (map fst (listing w)) = []
      then Return () (w\<lparr>trace := trace w @ apply_prelude cfg (resolve e (argv ! 1)) (strip text)
              @ [Out ''  No patches found in patches/ directory.'',
                 Out ''Done! (No patches to apply)'']\<rparr>)
      else if fst (git e (resolve e (argv ! 1)) (tl (am_command cfg w))) \<noteq> 0
      then Exit 1 (w\<lparr>trace := trace w @ apply_prelude cfg (resolve e (argv ! 1)) (strip text)
              @ [Out (''  Found '' @ str_nat (length (filter is_patch (map fst (listing w))))
                      @ '' patch(es)''),
                 Spawn (resolve e (argv ! 1)) (am_command cfg w),
                 Out ([CHR 10] @ replicate 60 CHR ''=''),
                 Out ''ERROR: Patch application failed!'',
                 Out (replicate 60 CHR ''=''),
                 Out (''To abort and reset: cd '' @ resolve e (argv ! 1) @ '' && git am --abort''),
                 Out ''To resolve manually: fix conflicts, git add, git am --continue'']\<rparr>)
      else Return () (w\<lparr>trace := trace w @ apply_prelude cfg (resolve e (argv ! 1)) (strip text)
              @ [Out (''  Found '' @ str_nat (length (filter is_patch (map fst (listing w))))
                      @ '' patch(es)''),
                 Spawn (resolve e (argv ! 1)) (am_command cfg w),
                 Out ([CHR 10] @ replicate 60 CHR ''=''),
                 Out ''SUCCESS! All patches applied.'',
                 Out (replicate 60 CHR ''=''),
                 Out (''Source is ready in: '' @ resolve e (argv ! 1)),
                 Out ''You can now build following standard eden instructions.'']\<rparr>))"
proof -
  from assms have a: "\<not> length argv < 2" "\<not> length (strip text) < 7"
    "resolve e (argv ! 1) \<in> set (git_dirs w)"
    "fst (git e (resolve e (argv ! 1)) [''cat-file'', ''-t'', strip text]) = 0"
    "fst (git e (resolve e (argv ! 1)) [''checkout'', ''-f'', strip text]) = 0"
    "fst (git e (resolve e (argv ! 1)) [''clean'', ''-fdx'']) = 0"
    "fst (git e (resolve e (argv ! 1)) [''checkout'', ''-b'', ''patched-release'']) = 0"
    by (simp_all add: step4_reached_def)
  define repo where "repo = resolve e (argv ! 1)"
  show ?thesis
    unfolding apply_main_def Let_def
    using a assms(2) unfolding repo_def[symmetric]
    by (simp add: run seq_prog_def print_header_def bind_apply_run_git case_prod_beta
        glob_listing sort_glob path_str_glob comp_def apply_prelude_def am_command_def)
qed

lemma apply_main_stops_early:
  assumes "\<not> step4_reached e argv w"
  shows "exit_status (apply_main cfg e argv w) = 1
       \<and> Out ''[4/4] Applying patches...'' \<notin> set (new_events w (apply_main cfg e argv w))"
proof (cases "length argv < 2")
  case True
  then show ?thesis
    by (simp add: apply_main_def sys_exit_msg_def emit_def)
next
  case False
  with assms show ?thesis
    unfolding apply_main_def Let_def
    by (auto simp: step4_reached_def run seq_prog_def print_header_def bind_apply_run_git
        case_prod_beta split: option.splits)
qed

lemma bind_ret_right: "bind_prog m ret w = m w"
  by (simp add: bind_prog_def ret_def split: outcome.split)

lemma map_of_foldl_update:
  "map_of (foldl (\<lambda>d (n, c). AList.update n c d) d ws) n =
     (case map_of (rev ws) n of Some c \<Rightarrow> Some c | None \<Rightarrow> map_of d n)"
proof (induction ws arbitrary: d)
  case Nil
  then show ?case by simp
next
  case (Cons a ws)
  then show ?case
    by (cases a) (auto simp: update_conv' map_add_def split: option.splits)
qed

lemma map_of_written:
  "map_of (written e d) n =
     (case map_of (rev (format_patch_files e)) n of Some c \<Rightarrow> Some c | None \<Rightarrow> map_of d n)"
  by (simp add: written_def map_of_foldl_update)



lemma distinct_foldl_update:
  "distinct (map fst d) \<Longrightarrow> distinct (map fst (foldl (\<lambda>d (n, c). AList.update n c d) d ws))"
  by (induction ws arbitrary: d) (auto simp: distinct_update split: prod.splits)

lemma distinct_written: "distinct (map fst d) \<Longrightarrow> distinct (map fst (written e d))"
  by (simp add: written_def distinct_foldl_update)

lemma map_of_non_patches:
  "map_of (filter (\<lambda>x. \<not> is_patch (fst x)) d) n = (if is_patch n then None else map_of d n)"
  by (induction d) auto

lemma series_is_no_patch [simp]: "\<not> is_patch ''series''"
  by (simp add: is_patch_def)




lemma strip_line:
  assumes "h = [] \<or> (\<not> isspace (hd h) \<and> \<not> isspace (last h))"
  shows "strip (h @ [CHR 10]) = h"
proof (cases "h = []")
  case True
  then show ?thesis by (simp add: strip_def isspace_def)
next
  case False
  with assms have a: "\<not> isspace (hd h)" "\<not> isspace (last h)" by auto
  have nl: "isspace (CHR 10)" by (simp add: isspace_def)
  from False a(1) have 1: "dropWhile isspace (h @ [CHR 10]) = h @ [CHR 10]"
    by (cases h) simp_all
  from False a(2) have 2: "dropWhile isspace (rev h) = rev h"
    by (simp add: dropWhile_eq_self_iff hd_rev)
  show ?thesis by (simp add: strip_def 1 nl 2)
qed

lemma wf_world_distinct: "wf_world w \<Longrightarrow> distinct (map fst (listing w))"
  by (simp add: wf_world_def listing_def split: option.splits)

lemma kept_distinct: "wf_world w \<Longrightarrow> distinct (map fst (kept w))"
  by (simp add: kept_def wf_world_distinct distinct_map_filter)


lemma export_valid_frame [simp]:
  "export_valid e argv (w\<lparr>trace := t\<rparr>) = export_valid e argv w"
  "export_valid e argv (w\<lparr>patches := p\<rparr>) = export_valid e argv w"
  "export_valid e argv (w\<lparr>preview_diff := v\<rparr>) = export_valid e argv w"
  "export_valid e argv (w\<lparr>base_commit_txt := b\<rparr>) = export_valid e argv w"
  by (simp_all add: export_valid_def)

lemma wf_world_frame [simp]:
  "wf_world (w\<lparr>preview_diff := v\<rparr>) = wf_world w"
  "wf_world (w\<lparr>base_commit_txt := b\<rparr>) = wf_world w"
  "wf_world (w\<lparr>patches := Some d\<rparr>) = distinct (map fst d)"
  by (simp_all add: wf_world_def)

lemma listing_frame [simp]:
  "listing (w\<lparr>preview_diff := v\<rparr>) = listing w"
  "listing (w\<lparr>base_commit_txt := b\<rparr>) = listing w"
  by (simp_all add: listing_def)

lemma kept_frame [simp]:
  "kept (w\<lparr>trace := t\<rparr>) = kept w"
  "kept (w\<lparr>preview_diff := v\<rparr>) = kept w"
  "kept (w\<lparr>base_commit_txt := b\<rparr>) = kept w"
  "kept (w\<lparr>patches := Some d\<rparr>) = filter (\<lambda>x. \<not> is_patch (fst x)) d"
  by (simp_all add: kept_def)

text \<open>What one run of the exporter leaves in the three artifacts.\<close>

lemma export_main_final:
  assumes "wf_world w"
  shows "git_dirs (final (export_main cfg e argv w)) = git_dirs w"
    and "wf_world (final (export_main cfg e argv w))"
    and "listing (final (export_main cfg e argv w)) =
          (if \<not> export_valid e argv w then listing w
           else if fst (git e (export_repo e argv) (format_patch_args cfg)) \<noteq> 0
           then written e (kept w)
           else AList.update ''series'' (series_text (written e (kept w))) (written e (kept w)))"
    and "preview_diff (final (export_main cfg e argv w)) =
          (if export_valid e argv w \<and> fst (git e (export_repo e argv) (format_patch_args cfg)) = 0
           then Some (snd (git e (export_repo e argv) [''diff'', ''gitlab/master..HEAD'']))
           else preview_diff w)"
    and "base_commit_txt (final (export_main cfg e argv w)) =
          (if export_valid e argv w \<and> fst (git e (export_repo e argv) (format_patch_args cfg)) = 0
              \<and> fst (git e (export_repo e argv) [''rev-parse'', ''gitlab/master'']) = 0
           then Some (strip (snd (git e (export_repo e argv) [''rev-parse'', ''gitlab/master'']))
                      @ [CHR 10])
           else base_commit_txt w)"
proof -
  consider (invalid) "\<not> export_valid e argv w"
    | (fails) "export_valid e argv w"
        "fst (git e (export_repo e argv) (format_patch_args cfg)) \<noteq> 0"
    | (ok) "export_valid e argv w"
        "fst (git e (export_repo e argv) (format_patch_args cfg)) = 0"
    by blast
  then have "git_dirs (final (export_main cfg e argv w)) = git_dirs w
    \<and> wf_world (final (export_main cfg e argv w))
    \<and> listing (final (export_main cfg e argv w)) =
          (if \<not> export_valid e argv w then listing w
           else if fst (git e (export_repo e argv) (format_patch_args cfg)) \<noteq> 0
           then written e (kept w)
           else AList.update ''series'' (series_text (written e (kept w))) (written e (kept w)))
    \<and> preview_diff (final (export_main cfg e argv w)) =
          (if export_valid e argv w \<and> fst (git e (export_repo e argv) (format_patch_args cfg)) = 0
           then Some (snd (git e (export_repo e argv) [''diff'', ''gitlab/master..HEAD'']))
           else preview_diff w)
    \<and> base_commit_txt (final (export_main cfg e argv w)) =
          (if export_valid e argv w \<and> fst (git e (export_repo e argv) (format_patch_args cfg)) = 0
              \<and> fst (git e (export_repo e argv) [''rev-parse'', ''gitlab/master'']) = 0
           then Some (strip (snd (git e (export_repo e argv) [''rev-parse'', ''gitlab/master'']))
                      @ [CHR 10])
           else base_commit_txt w)"
  proof cases
    case invalid
    then show ?thesis using assms by (simp add: export_main_invalid)
  next
    case fails
    then show ?thesis
      using assms by (simp add: export_main_fp_fails distinct_written kept_distinct)
  next
    case ok
    then show ?thesis
      using assms
      by (simp add: export_main_fp_ok distinct_written kept_distinct distinct_update)
  qed
  then show "git_dirs (final (export_main cfg e argv w)) = git_dirs w"
    and "wf_world (final (export_main cfg e argv w))"
    and "listing (final (export_main cfg e argv w)) =
          (if \<not> export_valid e argv w then listing w
           else if fst (git e (export_repo e argv) (format_patch_args cfg)) \<noteq> 0
           then written e (kept w)
           else AList.update ''series'' (series_text (written e (kept w))) (written e (kept w)))"
    and "preview_diff (final (export_main cfg e argv w)) =
          (if export_valid e argv w \<and> fst (git e (export_repo e argv) (format_patch_args cfg)) = 0
           then Some (snd (git e (export_repo e argv) [''diff'', ''gitlab/master..HEAD'']))
           else preview_diff w)"
    and "base_commit_txt (final (export_main cfg e argv w)) =
          (if export_valid e argv w \<and> fst (git e (export_repo e argv) (format_patch_args cfg)) = 0
              \<and> fst (git e (export_repo e argv) [''rev-parse'', ''gitlab/master'']) = 0
           then Some (strip (snd (git e (export_repo e argv) [''rev-parse'', ''gitlab/master'']))
                      @ [CHR 10])
           else base_commit_txt w)"
    by blast+
qed


lemma git_effect_trace [simp]: "trace (git_effect e args w) = trace w"
  by (simp add: git_effect_def split: list.split)

lemma demo_reached:
  "failing \<notin> {''cat-file'', ''checkout'', ''clean''} \<Longrightarrow>
     step4_reached (demo_env failing printed) demo_argv (demo_world dir)"
  by (auto simp: step4_reached_def demo_defs)

lemma demo_strip: "strip (demo_hash @ [CHR 10]) = demo_hash"
  by (simp add: demo_defs)

lemma demo_wf: "wf_world (demo_world (Some demo_listing))"
  by (simp add: wf_world_def demo_defs)

lemma demo_valid:
  "failing \<noteq> ''remote'' \<Longrightarrow> export_valid (demo_env failing printed) demo_argv (demo_world dir)"
  by (auto simp: export_valid_def export_repo_def demo_defs)

text \<open>The two calls of the importer's \<open>main\<close>.\<close>

lemma step4_reached_trace [simp]:
  "step4_reached e argv (w\<lparr>trace := t\<rparr>) = step4_reached e argv w"
  by (cases "base_commit_txt w") (simp_all add: step4_reached_def)

lemma apply_script_first_exits:
  "exit_status (apply_main cfg e1 argv w) \<noteq> 0 \<Longrightarrow>
     apply_script cfg e1 e2 argv w = apply_main cfg e1 argv w"
  by (cases "apply_main cfg e1 argv w")
     (simp_all add: apply_script_def seq_prog_def bind_prog_def)

lemma apply_script_first_returns:
  "apply_main cfg e1 argv w = Return x w' \<Longrightarrow>
     apply_script cfg e1 e2 argv w = apply_main cfg e2 argv w'"
  by (simp add: apply_script_def seq_prog_def bind_prog_def)

lemma am_command_trace [simp]: "am_command cfg (w\<lparr>trace := t\<rparr>) = am_command cfg w"
  by (simp add: am_command_def)

lemma apply_script_applies_twice:
  assumes "step4_reached e1 argv w"
    and "step4_reached e2 argv w"
    and "base_commit_txt w = Some content"
    and "filter is_patch (map fst (listing w)) \<noteq> []"
    and "fst (git e1 (resolve e1 (argv ! 1)) (tl (am_command cfg w))) = 0"
    and "fst (git e2 (resolve e2 (argv ! 1)) (tl (am_command cfg w))) = 0"
  shows "apply_script cfg e1 e2 argv w =
           Return () (w\<lparr>trace := trace w
             @ apply_prelude cfg (resolve e1 (argv ! 1)) (strip content)
             @ am_success cfg (resolve e1 (argv ! 1)) w
             @ apply_prelude cfg (resolve e2 (argv ! 1)) (strip content)
             @ am_success cfg (resolve e2 (argv ! 1)) w\<rparr>)"
proof -
  let ?w1 = "w\<lparr>trace := trace w
             @ apply_prelude cfg (resolve e1 (argv ! 1)) (strip content)
             @ am_success cfg (resolve e1 (argv ! 1)) w\<rparr>"
  have first: "apply_main cfg e1 argv w = Return () ?w1"
    using apply_main_step4[OF assms(1,3), of cfg] assms(4,5) by (simp add: am_success_def)
  have r2: "step4_reached e2 argv ?w1" using assms(2) by simp
  have b2: "base_commit_txt ?w1 = Some content" using assms(3) by simp
  have second: "apply_main cfg e2 argv ?w1 =
           Return () (?w1\<lparr>trace := trace ?w1
             @ apply_prelude cfg (resolve e2 (argv ! 1)) (strip content)
             @ am_success cfg (resolve e2 (argv ! 1)) w\<rparr>)"
    using apply_main_step4[OF r2 b2, of cfg] assms(4,6) by (simp add: am_success_def)
  show ?thesis
    unfolding apply_script_first_returns[OF first] second by simp
qed

section \<open>The base-commit file is checked first\<close>

text \<open>
  Claim C1. Whenever \<open>BASE_COMMIT.txt\<close> is absent, or its text stripped of surrounding
  whitespace has fewer than 7 characters (the empty text included), the importer ends with
  exit status 1 and has spawned no git command at all; when a path argument was given, the
  last thing it wrote is the error message on standard error, which for a file that is
  present reads "Error: BASE_COMMIT.txt is empty or invalid!". The first call of \<open>main\<close>
  exits, so that call is the whole run of the script.
\<close>

theorem bad_base_commit_exits_before_git:
  assumes "base_commit_txt w = None \<or>
           (\<exists>text. base_commit_txt w = Some text \<and> length (strip text) < 7)"
  shows "exit_status (apply_main cfg e argv w) = 1
       \<and> spawns (new_events w (apply_main cfg e argv w)) = []
       \<and> (2 \<le> length argv \<longrightarrow>
            last (new_events w (apply_main cfg e argv w)) =
              Err (case base_commit_txt w of
                     None \<Rightarrow> ''Error: '' @ path_str (BASE_COMMIT_FILE cfg) @ '' not found!''
                   | Some text \<Rightarrow> ''Error: BASE_COMMIT.txt is empty or invalid!''))
       \<and> apply_script cfg e e2 argv w = apply_main cfg e argv w"
proof -
  have one: "exit_status (apply_main cfg e argv w) = 1
       \<and> spawns (new_events w (apply_main cfg e argv w)) = []
       \<and> (2 \<le> length argv \<longrightarrow>
            last (new_events w (apply_main cfg e argv w)) =
              Err (case base_commit_txt w of
                     None \<Rightarrow> ''Error: '' @ path_str (BASE_COMMIT_FILE cfg) @ '' not found!''
                   | Some text \<Rightarrow> ''Error: BASE_COMMIT.txt is empty or invalid!''))"
  proof (cases "length argv < 2")
    case True
    then show ?thesis
      by (simp add: apply_main_def sys_exit_msg_def emit_def)
  next
    case False
    with assms show ?thesis
      by (auto simp: apply_main_def run_simps)
  qed
  then have "exit_status (apply_main cfg e argv w) \<noteq> 0" by simp
  then have "apply_script cfg e e2 argv w = apply_main cfg e argv w"
    by (rule apply_script_first_exits)
  with one show ?thesis by blast
qed

theorem bad_base_commit_abc123:
  "exit_status (apply_main demo_cfg (demo_env ''none'' []) demo_argv
                  ((demo_world None)\<lparr>base_commit_txt := Some ''abc123''\<rparr>)) = 1
   \<and> spawns (new_events ((demo_world None)\<lparr>base_commit_txt := Some ''abc123''\<rparr>)
               (apply_main demo_cfg (demo_env ''none'' []) demo_argv
                  ((demo_world None)\<lparr>base_commit_txt := Some ''abc123''\<rparr>))) = []
   \<and> last (new_events ((demo_world None)\<lparr>base_commit_txt := Some ''abc123''\<rparr>)
               (apply_main demo_cfg (demo_env ''none'' []) demo_argv
                  ((demo_world None)\<lparr>base_commit_txt := Some ''abc123''\<rparr>)))
       = Err ''Error: BASE_COMMIT.txt is empty or invalid!''"
  using bad_base_commit_exits_before_git
          [of "(demo_world None)\<lparr>base_commit_txt := Some ''abc123''\<rparr>" demo_cfg
              "demo_env ''none'' []" demo_argv]
  by (simp add: demo_defs)

section \<open>Nothing to apply\<close>

text \<open>
  Claim C8. When the patches directory holds no \<open>*.patch\<close> file (or does not exist) and
  the importer reaches its fourth step in both calls of \<open>main\<close> that the script makes, each
  call prints "No patches found in patches/ directory." and "Done! (No patches to apply)",
  no \<open>git am\<close> is spawned, the script runs to its end and the process ends with exit
  status 0.
\<close>

theorem no_patches_is_success:
  assumes "step4_reached e1 argv w"
    and "step4_reached e2 argv w"
    and "base_commit_txt w = Some content"
    and "filter is_patch (map fst (listing w)) = []"
  shows "apply_script cfg e1 e2 argv w =
           Return () (w\<lparr>trace := trace w
             @ apply_prelude cfg (resolve e1 (argv ! 1)) (strip content)
             @ [Out ''  No patches found in patches/ directory.'',
                Out ''Done! (No patches to apply)'']
             @ apply_prelude cfg (resolve e2 (argv ! 1)) (strip content)
             @ [Out ''  No patches found in patches/ directory.'',
                Out ''Done! (No patches to apply)'']\<rparr>)
       \<and> exit_status (apply_script cfg e1 e2 argv w) = 0"
proof -
  let ?w1 = "w\<lparr>trace := trace w
             @ apply_prelude cfg (resolve e1 (argv ! 1)) (strip content)
             @ [Out ''  No patches found in patches/ directory.'',
                Out ''Done! (No patches to apply)'']\<rparr>"
  have first: "apply_main cfg e1 argv w = Return () ?w1"
    using apply_main_step4[OF assms(1,3), of cfg] assms(4) by simp
  have r2: "step4_reached e2 argv ?w1" using assms(2) by simp
  have b2: "base_commit_txt ?w1 = Some content" using assms(3) by simp
  have second: "apply_main cfg e2 argv ?w1 =
           Return () (?w1\<lparr>trace := trace ?w1
             @ apply_prelude cfg (resolve e2 (argv ! 1)) (strip content)
             @ [Out ''  No patches found in patches/ directory.'',
                Out ''Done! (No patches to apply)'']\<rparr>)"
    using apply_main_step4[OF r2 b2, of cfg] assms(4) by simp
  show ?thesis
    unfolding apply_script_first_returns[OF first] second by simp
qed

theorem only_series_in_patches:
  "exit_status (apply_script demo_cfg (demo_env ''none'' []) (demo_env ''none'' []) demo_argv
     (demo_world (Some [(''series'', ''stale'')]))) = 0
   \<and> length (spawns (new_events (demo_world (Some [(''series'', ''stale'')]))
       (apply_script demo_cfg (demo_env ''none'' []) (demo_env ''none'' []) demo_argv
          (demo_world (Some [(''series'', ''stale'')]))))) = 10
   \<and> filter (\<lambda>ev. ev = Out ''Done! (No patches to apply)'')
       (new_events (demo_world (Some [(''series'', ''stale'')]))
       (apply_script demo_cfg (demo_env ''none'' []) (demo_env ''none'' []) demo_argv
          (demo_world (Some [(''series'', ''stale'')])))) =
       [Out ''Done! (No patches to apply)'', Out ''Done! (No patches to apply)'']"
proof -
  have r: "step4_reached (demo_env ''none'' []) demo_argv
             (demo_world (Some [(''series'', ''stale'')]))"
    by (rule demo_reached) simp
  have b: "base_commit_txt (demo_world (Some [(''series'', ''stale'')]))
             = Some (demo_hash @ [CHR 10])"
    by (simp add: demo_world_def)
  have n: "filter is_patch (map fst (listing (demo_world (Some [(''series'', ''stale'')])))) = []"
    by (simp add: demo_defs listing_def)
  show ?thesis
    using no_patches_is_success[OF r r b n, of demo_cfg]
    by (simp add: apply_prelude_def)
qed

section \<open>Applying the patches\<close>

text \<open>
  Claim C2 says that the importer hands all patch files to a single \<open>git am --3way\<close>,
  sorted by file name. Each call of \<open>main\<close> does that, but the script calls \<open>main\<close>
  twice: with the three patch files \<open>0002-b.patch\<close>, \<open>0003-c.patch\<close> and
  \<open>0001-a.patch\<close> in the directory and a git that succeeds throughout, a run spawns the
  five commands of the first three steps and \<open>git am --3way\<close> on the three sorted paths,
  then spawns all six again, and ends with exit status 0.
\<close>

theorem importer_runs_git_am_twice:
  "spawns (new_events (demo_world (Some demo_listing))
      (apply_script demo_cfg (demo_env ''none'' []) (demo_env ''none'' []) demo_argv
         (demo_world (Some demo_listing)))) =
     [(''/eden'', [''git'', ''cat-file'', ''-t'', ''0123456789abcdef'']),
      (''/eden'', [''git'', ''checkout'', ''-f'', ''0123456789abcdef'']),
      (''/eden'', [''git'', ''clean'', ''-fdx'']),
      (''/eden'', [''git'', ''branch'', ''-D'', ''patched-release'']),
      (''/eden'', [''git'', ''checkout'', ''-b'', ''patched-release'']),
      (''/eden'', [''git'', ''am'', ''--3way'', ''/puni-patcher/patches/0001-a.patch'',
                  ''/puni-patcher/patches/0002-b.patch'', ''/puni-patcher/patches/0003-c.patch'']),
      (''/eden'', [''git'', ''cat-file'', ''-t'', ''0123456789abcdef'']),
      (''/eden'', [''git'', ''checkout'', ''-f'', ''0123456789abcdef'']),
      (''/eden'', [''git'', ''clean'', ''-fdx'']),
      (''/eden'', [''git'', ''branch'', ''-D'', ''patched-release'']),
      (''/eden'', [''git'', ''checkout'', ''-b'', ''patched-release'']),
      (''/eden'', [''git'', ''am'', ''--3way'', ''/puni-patcher/patches/0001-a.patch'',
                  ''/puni-patcher/patches/0002-b.patch'', ''/puni-patcher/patches/0003-c.patch''])]
   \<and> exit_status
       (apply_script demo_cfg (demo_env ''none'' []) (demo_env ''none'' []) demo_argv
          (demo_world (Some demo_listing))) = 0"
proof -
  let ?e = "demo_env ''none'' []"
  let ?w = "demo_world (Some demo_listing)"
  have r: "step4_reached ?e demo_argv ?w"
    by (rule demo_reached) simp
  have b: "base_commit_txt ?w = Some (demo_hash @ [CHR 10])"
    by (simp add: demo_world_def)
  have n: "filter is_patch (map fst (listing ?w)) \<noteq> []"
    by (simp add: demo_defs listing_def is_patch_def)
  have ok: "fst (git ?e (resolve ?e (demo_argv ! 1)) (tl (am_command demo_cfg ?w))) = 0"
    by (simp add: demo_env_def am_command_def)
  have am: "am_command demo_cfg ?w =
     [''git'', ''am'', ''--3way'', ''/puni-patcher/patches/0001-a.patch'',
      ''/puni-patcher/patches/0002-b.patch'', ''/puni-patcher/patches/0003-c.patch'']"
    by (simp add: am_command_def demo_defs listing_def is_patch_def less_eq_char_def less_char_def
        PATCHES_DIR_def path_div_def path_str_def)
  have repo: "resolve ?e (demo_argv ! 1) = ''/eden''"
    by (simp add: demo_env_def demo_argv_def)
  show ?thesis
    unfolding apply_script_applies_twice[OF r r b n ok ok] repo
    by (simp add: apply_prelude_def am_success_def am demo_hash_def strip_def isspace_def)
qed

section \<open>What has happened before the patches are listed\<close>

text \<open>
  Claim C10. In every run of the importer that prints the header of its fourth step, the
  events before that header contain exactly these spawned commands, in this order, all in
  the target repository: \<open>git cat-file -t\<close> on the base commit, \<open>git checkout -f\<close> of the
  base commit, \<open>git clean -fdx\<close>, \<open>git branch -D patched-release\<close> and
  \<open>git checkout -b patched-release\<close>; and the checkout, the clean and the branch creation
  exited with 0. This holds whether or not any patch file exists.
\<close>

theorem base_reset_before_enumeration:
  assumes "Out ''[4/4] Applying patches...'' \<in> set (new_events w (apply_main cfg e argv w))"
  shows "\<exists>content pre post.
           base_commit_txt w = Some content
         \<and> new_events w (apply_main cfg e argv w) = pre @ Out ''[4/4] Applying patches...'' # post
         \<and> spawns pre =
             [(resolve e (argv ! 1), [''git'', ''cat-file'', ''-t'', strip content]),
              (resolve e (argv ! 1), [''git'', ''checkout'', ''-f'', strip content]),
              (resolve e (argv ! 1), [''git'', ''clean'', ''-fdx'']),
              (resolve e (argv ! 1), [''git'', ''branch'', ''-D'', ''patched-release'']),
              (resolve e (argv ! 1), [''git'', ''checkout'', ''-b'', ''patched-release''])]
         \<and> fst (git e (resolve e (argv ! 1)) [''checkout'', ''-f'', strip content]) = 0
         \<and> fst (git e (resolve e (argv ! 1)) [''clean'', ''-fdx'']) = 0
         \<and> fst (git e (resolve e (argv ! 1)) [''checkout'', ''-b'', ''patched-release'']) = 0"
proof -
  have reached: "step4_reached e argv w"
    using assms apply_main_stops_early[of e argv w cfg] by blast
  then obtain content where c: "base_commit_txt w = Some content"
    by (auto simp: step4_reached_def split: option.splits)
  let ?repo = "resolve e (argv ! 1)"
  let ?pre = "butlast (apply_prelude cfg ?repo (strip content))"
  have split: "apply_prelude cfg ?repo (strip content) = ?pre @ [Out ''[4/4] Applying patches...'']"
    by (simp add: apply_prelude_def)
  have "\<exists>post. new_events w (apply_main cfg e argv w)
                 = apply_prelude cfg ?repo (strip content) @ post"
    by (simp add: apply_main_step4[OF reached c])
  then obtain post where p: "new_events w (apply_main cfg e argv w)
                 = apply_prelude cfg ?repo (strip content) @ post"
    by blast
  have "apply_prelude cfg ?repo (strip content) @ post
          = (?pre @ [Out ''[4/4] Applying patches...'']) @ post"
    by (simp only: split[symmetric])
  with p have
    "new_events w (apply_main cfg e argv w) = ?pre @ Out ''[4/4] Applying patches...'' # post"
    by simp
  moreover have "spawns ?pre =
             [(?repo, [''git'', ''cat-file'', ''-t'', strip content]),
              (?repo, [''git'', ''checkout'', ''-f'', strip content]),
              (?repo, [''git'', ''clean'', ''-fdx'']),
              (?repo, [''git'', ''branch'', ''-D'', ''patched-release'']),
              (?repo, [''git'', ''checkout'', ''-b'', ''patched-release''])]"
    by (simp add: apply_prelude_def)
  moreover have "fst (git e ?repo [''checkout'', ''-f'', strip content]) = 0"
    "fst (git e ?repo [''clean'', ''-fdx'']) = 0"
    "fst (git e ?repo [''checkout'', ''-b'', ''patched-release'']) = 0"
    using reached c by (simp_all add: step4_reached_def)
  ultimately show ?thesis using c by blast
qed

theorem reset_happens_without_patches:
  "\<exists>content pre post.
     base_commit_txt (demo_world None) = Some content
   \<and> new_events (demo_world None)
       (apply_main demo_cfg (demo_env ''none'' []) demo_argv (demo_world None))
       = pre @ Out ''[4/4] Applying patches...'' # post
   \<and> spawns pre =
       [(resolve (demo_env ''none'' []) (demo_argv ! 1), [''git'', ''cat-file'', ''-t'', strip content]),
        (resolve (demo_env ''none'' []) (demo_argv ! 1), [''git'', ''checkout'', ''-f'', strip content]),
        (resolve (demo_env ''none'' []) (demo_argv ! 1), [''git'', ''clean'', ''-fdx'']),
        (resolve (demo_env ''none'' []) (demo_argv ! 1), [''git'', ''branch'', ''-D'', ''patched-release'']),
        (resolve (demo_env ''none'' []) (demo_argv ! 1), [''git'', ''checkout'', ''-b'', ''patched-release''])]
   \<and> fst (git (demo_env ''none'' []) (resolve (demo_env ''none'' []) (demo_argv ! 1))
            [''checkout'', ''-f'', strip content]) = 0
   \<and> fst (git (demo_env ''none'' []) (resolve (demo_env ''none'' []) (demo_argv ! 1))
            [''clean'', ''-fdx'']) = 0
   \<and> fst (git (demo_env ''none'' []) (resolve (demo_env ''none'' []) (demo_argv ! 1))
            [''checkout'', ''-b'', ''patched-release'']) = 0"
proof -
  have r: "step4_reached (demo_env ''none'' []) demo_argv (demo_world None)"
    by (rule demo_reached) simp
  have b: "base_commit_txt (demo_world None) = Some (demo_hash @ [CHR 10])"
    by (simp add: demo_world_def)
  have h: "Out ''[4/4] Applying patches...'' \<in> set (new_events (demo_world None)
       (apply_main demo_cfg (demo_env ''none'' []) demo_argv (demo_world None)))"
    by (simp add: apply_main_step4[OF r b] apply_prelude_def)
  show ?thesis
    by (rule base_reset_before_enumeration[OF h])
qed

section \<open>A target without repository metadata\<close>

text \<open>
  Claim C4. When the directory given to the importer has no \<open>.git\<close> entry, the importer
  ends with exit status 1, has spawned no git command, and the last thing it wrote is an
  error message on standard error (about the base-commit file when that is missing or too
  short, about the directory not being a git repository otherwise); the first call of
  \<open>main\<close> exits, so that call is the whole run of the script. When the directory the
  exporter works on has no \<open>.git\<close> entry, the exporter prints its two opening lines and
  an empty line, writes the not-a-repository message to standard error and ends with exit
  status 1, having spawned nothing and changed no file.
\<close>

theorem missing_git_dir_exits_before_git:
  "(2 \<le> length argv \<and> resolve e (argv ! 1) \<notin> set (git_dirs w) \<longrightarrow>
       exit_status (apply_main cfg e argv w) = 1
     \<and> spawns (new_events w (apply_main cfg e argv w)) = []
     \<and> last (new_events w (apply_main cfg e argv w)) =
         Err (case base_commit_txt w of
                None \<Rightarrow> ''Error: '' @ path_str (BASE_COMMIT_FILE cfg) @ '' not found!''
              | Some content \<Rightarrow>
                  if length (strip content) < 7
                  then ''Error: BASE_COMMIT.txt is empty or invalid!''
                  else ''Error: '' @ [CHR 39] @ resolve e (argv ! 1) @ [CHR 39]
                       @ '' is not a git repository!'' @ [CHR 10, CHR 10] @ ''Usage:'' @ [CHR 10]
                       @ ''  python apply_patches.py <path-to-eden-repo>'')
     \<and> apply_script cfg e e2 argv w = apply_main cfg e argv w)
   \<and> (export_repo e argv \<notin> set (git_dirs w) \<longrightarrow>
       export_main cfg e argv w =
         Exit 1 (w\<lparr>trace := trace w @
           [Out (''Eden repo:   '' @ export_repo e argv),
            Out (''Patch repo:  '' @ path_str (PATCH_REPO cfg)),
            Out [],
            Err (''Error: '' @ [CHR 39] @ export_repo e argv @ [CHR 39]
                 @ '' is not a git repository!'' @ [CHR 10, CHR 10] @ ''Usage:'' @ [CHR 10]
                 @ ''  python export_patches.py [path-to-eden-repo]'' @ [CHR 10]
                 @ ''  python export_patches.py  # uses current directory'')]\<rparr>))"
proof (intro conjI impI)
  assume a: "2 \<le> length argv \<and> resolve e (argv ! 1) \<notin> set (git_dirs w)"
  then have n: "\<not> length argv < 2" by simp
  show es: "exit_status (apply_main cfg e argv w) = 1"
    using a n unfolding apply_main_def Let_def
    by (simp add: run seq_prog_def print_header_def split: option.split)
  show "apply_script cfg e e2 argv w = apply_main cfg e argv w"
    by (rule apply_script_first_exits) (simp add: es)
  show "spawns (new_events w (apply_main cfg e argv w)) = []"
    using a n unfolding apply_main_def Let_def
    by (simp add: run seq_prog_def print_header_def split: option.split)
  show "last (new_events w (apply_main cfg e argv w)) =
         Err (case base_commit_txt w of
                None \<Rightarrow> ''Error: '' @ path_str (BASE_COMMIT_FILE cfg) @ '' not found!''
              | Some content \<Rightarrow>
                  if length (strip content) < 7
                  then ''Error: BASE_COMMIT.txt is empty or invalid!''
                  else ''Error: '' @ [CHR 39] @ resolve e (argv ! 1) @ [CHR 39]
                       @ '' is not a git repository!'' @ [CHR 10, CHR 10] @ ''Usage:'' @ [CHR 10]
                       @ ''  python apply_patches.py <path-to-eden-repo>'')"
    using a n unfolding apply_main_def Let_def
    by (simp add: run seq_prog_def print_header_def apply_script_name_def split: option.split)
next
  assume "export_repo e argv \<notin> set (git_dirs w)"
  then show "export_main cfg e argv w =
         Exit 1 (w\<lparr>trace := trace w @
           [Out (''Eden repo:   '' @ export_repo e argv),
            Out (''Patch repo:  '' @ path_str (PATCH_REPO cfg)),
            Out [],
            Err (''Error: '' @ [CHR 39] @ export_repo e argv @ [CHR 39]
                 @ '' is not a git repository!'' @ [CHR 10, CHR 10] @ ''Usage:'' @ [CHR 10]
                 @ ''  python export_patches.py [path-to-eden-repo]'' @ [CHR 10]
                 @ ''  python export_patches.py  # uses current directory'')]\<rparr>)"
    by (simp add: export_main_invalid export_valid_def export_script_name_def)
qed

theorem no_repository_at_nowhere:
  "exit_status (apply_main demo_cfg (demo_env ''none'' []) [''script.py'', ''/nowhere'']
      (demo_world None)) = 1
   \<and> spawns (new_events (demo_world None)
        (apply_main demo_cfg (demo_env ''none'' []) [''script.py'', ''/nowhere'']
           (demo_world None))) = []
   \<and> exit_status (export_main demo_cfg (demo_env ''none'' []) [''script.py'', ''/nowhere'']
      (demo_world None)) = 1
   \<and> spawns (new_events (demo_world None)
        (export_main demo_cfg (demo_env ''none'' []) [''script.py'', ''/nowhere'']
           (demo_world None))) = []"
proof -
  have a: "2 \<le> length [''script.py'', ''/nowhere'']
             \<and> resolve (demo_env ''none'' []) ([''script.py'', ''/nowhere''] ! 1)
                 \<notin> set (git_dirs (demo_world None))"
    by (simp add: demo_defs)
  have b: "export_repo (demo_env ''none'' []) [''script.py'', ''/nowhere'']
             \<notin> set (git_dirs (demo_world None))"
    by (simp add: demo_defs export_repo_def)
  show ?thesis
    using missing_git_dir_exits_before_git
          [of "[''script.py'', ''/nowhere'']" "demo_env ''none'' []" "demo_world None" demo_cfg]
      a b
    by simp
qed

section \<open>A failing command under \<open>check\<close>\<close>

text \<open>
  Claim C7, as stated, does not hold: a checked git command that exits with code 128 ends
  the process with exit status 1, in the importer and in the exporter alike.
\<close>

theorem exit_code_128_becomes_1:
  "fst (git (demo_env ''fetch'' []) ''/eden'' [''fetch'']) = 128
   \<and> exit_status (apply_run_git (demo_env ''fetch'' []) [''fetch''] ''/eden'' False True
        (demo_world None)) = 1
   \<and> exit_status (export_run_git (demo_env ''fetch'' []) [''fetch''] ''/eden'' False True
        (demo_world None)) = 1"
  by (simp add: apply_run_git_def export_run_git_def run seq_prog_def case_prod_beta demo_defs
      sys_exit_msg_def emit_def)

text \<open>
  Claim C7, amended. For every git command that \<open>run_git\<close> runs with \<open>check\<close> enabled,
  a non-zero exit code of the command ends the process with exit status 1, right after a
  diagnostic that names the command's exit code: a printed line in the importer, a message
  on standard error in the exporter.
\<close>

theorem failed_checked_command_exits_with_1:
  assumes "fst (git e d args) \<noteq> 0"
  shows "exit_status (apply_run_git e args d capture True w) = 1
       \<and> new_events w (apply_run_git e args d capture True w) =
           [Out (''  > '' @ join '' '' (''git'' # args)), Spawn d (''git'' # args),
            Out (''Command failed with exit code '' @ str_int (fst (git e d args)))]
       \<and> exit_status (export_run_git e args d capture True w) = 1
       \<and> new_events w (export_run_git e args d capture True w) =
           [Out (''  > '' @ join '' '' (''git'' # args)), Spawn d (''git'' # args),
            Err (''Command failed with exit code '' @ str_int (fst (git e d args)))]"
  using assms
  by (simp add: apply_run_git_def export_run_git_def run seq_prog_def case_prod_beta
      new_events_def sys_exit_msg_def emit_def)

theorem fetch_fails_with_128:
  "new_events (demo_world None)
     (apply_run_git (demo_env ''fetch'' []) [''fetch''] ''/eden'' False True (demo_world None)) =
     [Out ''  > git fetch'', Spawn ''/eden'' [''git'', ''fetch''],
      Out ''Command failed with exit code 128'']
   \<and> new_events (demo_world None)
     (export_run_git (demo_env ''fetch'' []) [''fetch''] ''/eden'' False True (demo_world None)) =
     [Out ''  > git fetch'', Spawn ''/eden'' [''git'', ''fetch''],
      Err ''Command failed with exit code 128'']"
  using failed_checked_command_exits_with_1
          [of "demo_env ''fetch'' []" "''/eden''" "[''fetch'']" False "demo_world None"]
  by (simp add: demo_defs str_int_def str_nat.simps digit_char_def)

section \<open>Recording the upstream commit\<close>

text \<open>
  Claim C3. In \<open>update_base_commit\<close>, when \<open>git rev-parse gitlab/master\<close> exits with a
  non-zero code, the warning is printed, the function returns and \<open>BASE_COMMIT.txt\<close> is
  what it was; when the command exits with 0, the file holds the stripped output followed
  by one newline.
\<close>

theorem base_commit_kept_unless_resolved:
  "(fst (git e eden_repo [''rev-parse'', ''gitlab/master'']) \<noteq> 0 \<longrightarrow>
      update_base_commit e eden_repo w =
        Return () (w\<lparr>trace := trace w @
          [Out ''[5/5] Updating BASE_COMMIT.txt...'',
           Out ''  > git rev-parse gitlab/master'',
           Spawn eden_repo [''git'', ''rev-parse'', ''gitlab/master''],
           Out ''  Warning: Could not get upstream commit hash'']\<rparr>)
    \<and> base_commit_txt (final (update_base_commit e eden_repo w)) = base_commit_txt w)
 \<and> (fst (git e eden_repo [''rev-parse'', ''gitlab/master'']) = 0 \<longrightarrow>
      base_commit_txt (final (update_base_commit e eden_repo w)) =
        Some (strip (snd (git e eden_repo [''rev-parse'', ''gitlab/master''])) @ [CHR 10]))"
  using bind_update_base_commit[of e eden_repo ret w]
  by (simp add: bind_ret_right run_last)

theorem base_commit_kept_or_rewritten:
  "base_commit_txt (final (update_base_commit (demo_env ''rev-parse'' []) ''/eden''
      (demo_world None))) = Some (''0123456789abcdef'' @ [CHR 10])
   \<and> base_commit_txt (final (update_base_commit
        (demo_env ''none'' (''  fedcba9876543210'' @ [CHR 10])) ''/eden''
        (demo_world None))) = Some (''fedcba9876543210'' @ [CHR 10])"
  using base_commit_kept_unless_resolved
          [of "demo_env ''rev-parse'' []" "''/eden''" "demo_world None"]
        base_commit_kept_unless_resolved
          [of "demo_env ''none'' (''  fedcba9876543210'' @ [CHR 10])" "''/eden''"
              "demo_world None"]
  by (simp add: demo_defs)

section \<open>The base commit written and read back\<close>

text \<open>
  Claim C9. Let \<open>h\<close> be a text without leading or trailing whitespace that
  \<open>git rev-parse\<close> prints, possibly surrounded by whitespace, with exit code 0. Then
  \<open>update_base_commit\<close> writes \<open>h\<close> and a newline to \<open>BASE_COMMIT.txt\<close> whatever the
  length of \<open>h\<close>, and on the world it leaves \<open>load_base_commit\<close> returns exactly \<open>h\<close>
  when \<open>h\<close> has at least 7 characters and exits with status 1 and the "empty or invalid"
  message when it has fewer.
\<close>

theorem base_commit_round_trip:
  assumes "h = [] \<or> (\<not> isspace (hd h) \<and> \<not> isspace (last h))"
    and "git e eden_repo [''rev-parse'', ''gitlab/master''] = (0, out)"
    and "strip out = h"
  shows "update_base_commit e eden_repo w =
           Return () (w\<lparr>base_commit_txt := Some (h @ [CHR 10]),
             trace := trace w @
               [Out ''[5/5] Updating BASE_COMMIT.txt...'',
                Out ''  > git rev-parse gitlab/master'',
                Spawn eden_repo [''git'', ''rev-parse'', ''gitlab/master''],
                Out (''  Updated commit: '' @ h)]\<rparr>)
       \<and> (7 \<le> length h \<longrightarrow>
            load_base_commit cfg (final (update_base_commit e eden_repo w)) =
              Return h (final (update_base_commit e eden_repo w)))
       \<and> (length h < 7 \<longrightarrow>
            load_base_commit cfg (final (update_base_commit e eden_repo w)) =
              Exit 1 (final (update_base_commit e eden_repo w)
                \<lparr>trace := trace (final (update_base_commit e eden_repo w))
                   @ [Err ''Error: BASE_COMMIT.txt is empty or invalid!'']\<rparr>))"
proof -
  have u: "update_base_commit e eden_repo w =
           Return () (w\<lparr>base_commit_txt := Some (h @ [CHR 10]),
             trace := trace w @
               [Out ''[5/5] Updating BASE_COMMIT.txt...'',
                Out ''  > git rev-parse gitlab/master'',
                Spawn eden_repo [''git'', ''rev-parse'', ''gitlab/master''],
                Out (''  Updated commit: '' @ h)]\<rparr>)"
    using bind_update_base_commit[of e eden_repo ret w] assms(2,3)
    by (simp add: bind_ret_right run_last)
  show ?thesis
    unfolding u
    by (simp add: load_base_commit_def strip_line[OF assms(1)] ret_def sys_exit_msg_def emit_def)
qed

theorem hash_survives_short_text_rejected:
  "load_base_commit demo_cfg
     (final (update_base_commit (demo_env ''none'' (''0123456789abcdef'' @ [CHR 10])) ''/eden''
        (demo_world None)))
    = Return ''0123456789abcdef''
     (final (update_base_commit (demo_env ''none'' (''0123456789abcdef'' @ [CHR 10])) ''/eden''
        (demo_world None)))
   \<and> exit_status (load_base_commit demo_cfg
     (final (update_base_commit (demo_env ''none'' (''abc123'' @ [CHR 10])) ''/eden''
        (demo_world None)))) = 1"
proof -
  have 1: "''0123456789abcdef'' = []
             \<or> (\<not> isspace (hd ''0123456789abcdef'') \<and> \<not> isspace (last ''0123456789abcdef''))"
    and 2: "''abc123'' = [] \<or> (\<not> isspace (hd ''abc123'') \<and> \<not> isspace (last ''abc123''))"
    by (simp_all add: isspace_def)
  have 3: "git (demo_env ''none'' (''0123456789abcdef'' @ [CHR 10])) ''/eden''
             [''rev-parse'', ''gitlab/master''] = (0, ''0123456789abcdef'' @ [CHR 10])"
    and 4: "git (demo_env ''none'' (''abc123'' @ [CHR 10])) ''/eden''
             [''rev-parse'', ''gitlab/master''] = (0, ''abc123'' @ [CHR 10])"
    by (simp_all add: demo_env_def)
  have 5: "strip (''0123456789abcdef'' @ [CHR 10]) = ''0123456789abcdef''"
    and 6: "strip (''abc123'' @ [CHR 10]) = ''abc123''"
    by (simp_all add: strip_def isspace_def)
  have 7: "7 \<le> length ''0123456789abcdef''" and 8: "length ''abc123'' < 7"
    by simp_all
  have "load_base_commit demo_cfg
     (final (update_base_commit (demo_env ''none'' (''0123456789abcdef'' @ [CHR 10])) ''/eden''
        (demo_world None)))
    = Return ''0123456789abcdef''
     (final (update_base_commit (demo_env ''none'' (''0123456789abcdef'' @ [CHR 10])) ''/eden''
        (demo_world None)))"
    using base_commit_round_trip[OF 1 3 5, of "demo_world None" demo_cfg] 7 by blast
  moreover have "\<exists>w'. load_base_commit demo_cfg
     (final (update_base_commit (demo_env ''none'' (''abc123'' @ [CHR 10])) ''/eden''
        (demo_world None))) = Exit 1 w'"
    using base_commit_round_trip[OF 2 4 6, of "demo_world None" demo_cfg] 8 by blast
  ultimately show ?thesis by auto
qed

section \<open>Stale patch files\<close>

text \<open>
  Claim C5. In a patches directory that lists no name twice, \<open>clean_old_patches\<close> creates
  the directory when it is absent, removes every entry matching \<open>*.patch\<close> and keeps every
  other entry. In a run of the exporter that passes validation, the lines of that cleaning
  step come before \<open>git format-patch\<close> is spawned, and when the run ends every name
  matching \<open>*.patch\<close> holds exactly what \<open>format-patch\<close> wrote under that name in this
  run: a name it did not write is absent, whatever the directory held before.
\<close>

theorem stale_patches_removed:
  assumes "wf_world w"
  shows "clean_old_patches cfg w =
           Return () (w\<lparr>patches := Some (filter (\<lambda>x. \<not> is_patch (fst x)) (listing w)),
                        trace := trace w @ Out ''[1/5] Cleaning old patches...'' # removed_lines w\<rparr>)
       \<and> (export_valid e argv w \<longrightarrow>
            (\<exists>post. new_events w (export_main cfg e argv w) = export_opening cfg e argv w @ post)
          \<and> (\<forall>n. is_patch n \<longrightarrow>
                 map_of (listing (final (export_main cfg e argv w))) n
                   = map_of (rev (format_patch_files e)) n))"
proof (intro conjI impI allI)
  show "clean_old_patches cfg w =
           Return () (w\<lparr>patches := Some (filter (\<lambda>x. \<not> is_patch (fst x)) (listing w)),
                        trace := trace w @ Out ''[1/5] Cleaning old patches...'' # removed_lines w\<rparr>)"
    using bind_clean_old_patches[OF assms, of cfg ret]
    by (simp add: bind_ret_right run_last removed_lines_def)
next
  assume v: "export_valid e argv w"
  show "\<exists>post. new_events w (export_main cfg e argv w) = export_opening cfg e argv w @ post"
  proof (cases "fst (git e (export_repo e argv) (format_patch_args cfg)) = 0")
    case True
    show ?thesis
      by (simp add: export_main_fp_ok[OF assms v True] new_events_def)
  next
    case False
    show ?thesis
      by (simp add: export_main_fp_fails[OF assms v False] new_events_def)
  qed
next
  fix n
  assume v: "export_valid e argv w" and n: "is_patch n"
  from n have "n \<noteq> ''series''" by auto
  with v n show "map_of (listing (final (export_main cfg e argv w))) n
                   = map_of (rev (format_patch_files e)) n"
    by (simp add: export_main_final(3)[OF assms] update_conv' map_of_written kept_def
        map_of_non_patches split: option.split)
qed

theorem three_stale_patches_one_new:
  "clean_old_patches demo_cfg (demo_world (Some demo_listing)) =
     Return () (demo_world (Some demo_listing)
       \<lparr>patches := Some [(''series'', ''stale'')],
        trace := [Out ''[1/5] Cleaning old patches...'', Out ''  Removed: 0002-b.patch'',
                  Out ''  Removed: 0003-c.patch'', Out ''  Removed: 0001-a.patch'']\<rparr>)
   \<and> map_of (listing (final (export_main demo_cfg (demo_env ''none'' []) demo_argv
                  (demo_world (Some demo_listing))))) ''0002-b.patch'' = None
   \<and> map_of (listing (final (export_main demo_cfg (demo_env ''none'' []) demo_argv
                  (demo_world (Some demo_listing))))) ''0001-a.patch'' = Some ''A''
   \<and> (\<exists>post. new_events (demo_world (Some demo_listing))
                 (export_main demo_cfg (demo_env ''none'' []) demo_argv
                    (demo_world (Some demo_listing)))
               = export_opening demo_cfg (demo_env ''none'' []) demo_argv
                   (demo_world (Some demo_listing)) @ post)"
proof -
  note t = stale_patches_removed[OF demo_wf, of demo_cfg "demo_env ''none'' []" demo_argv]
  have v: "export_valid (demo_env ''none'' []) demo_argv (demo_world (Some demo_listing))"
    by (rule demo_valid) simp
  have p: "is_patch ''0002-b.patch''" "is_patch ''0001-a.patch''"
    by (simp_all add: is_patch_def)
  from t have "clean_old_patches demo_cfg (demo_world (Some demo_listing)) =
     Return () (demo_world (Some demo_listing)
       \<lparr>patches := Some (filter (\<lambda>x. \<not> is_patch (fst x)) (listing (demo_world (Some demo_listing)))),
        trace := trace (demo_world (Some demo_listing))
                 @ Out ''[1/5] Cleaning old patches...''
                   # removed_lines (demo_world (Some demo_listing))\<rparr>)"
    by (rule conjunct1)
  then have 1: "clean_old_patches demo_cfg (demo_world (Some demo_listing)) =
     Return () (demo_world (Some demo_listing)
       \<lparr>patches := Some [(''series'', ''stale'')],
        trace := [Out ''[1/5] Cleaning old patches...'', Out ''  Removed: 0002-b.patch'',
                  Out ''  Removed: 0003-c.patch'', Out ''  Removed: 0001-a.patch'']\<rparr>)"
    by (simp add: demo_defs listing_def removed_lines_def is_patch_def)
  from t v p have "map_of (listing (final (export_main demo_cfg (demo_env ''none'' []) demo_argv
                  (demo_world (Some demo_listing))))) ''0002-b.patch''
        = map_of (rev (format_patch_files (demo_env ''none'' []))) ''0002-b.patch''"
    and "map_of (listing (final (export_main demo_cfg (demo_env ''none'' []) demo_argv
                  (demo_world (Some demo_listing))))) ''0001-a.patch''
        = map_of (rev (format_patch_files (demo_env ''none'' []))) ''0001-a.patch''"
    by blast+
  then have 2: "map_of (listing (final (export_main demo_cfg (demo_env ''none'' []) demo_argv
                  (demo_world (Some demo_listing))))) ''0002-b.patch'' = None"
    and 3: "map_of (listing (final (export_main demo_cfg (demo_env ''none'' []) demo_argv
                  (demo_world (Some demo_listing))))) ''0001-a.patch'' = Some ''A''"
    by (simp_all add: demo_env_def)
  from t v have 4: "\<exists>post. new_events (demo_world (Some demo_listing))
                 (export_main demo_cfg (demo_env ''none'' []) demo_argv
                    (demo_world (Some demo_listing)))
               = export_opening demo_cfg (demo_env ''none'' []) demo_argv
                   (demo_world (Some demo_listing)) @ post"
    by blast
  from 1 2 3 4 show ?thesis by blast
qed

section \<open>Exporting twice\<close>



end
